theory Spec2Isabelle
  imports Complex_Main
begin

section \<open>Numbers\<close>

text \<open>
  The module computes with NumPy double-precision values. A value is modelled as a
  finite real number or one of the three special values of IEEE arithmetic. Rounding
  and overflow of finite values are not modelled: a finite result is the exact real
  result. What is modelled is where a special value comes from (a division by zero,
  a square root or an arc cosine outside its domain) and how it propagates. NumPy does
  not raise on an invalid operation, it returns the special value. Zero carries no sign:
  the only zero divisors of this module are square roots and products of norms.
\<close>

datatype fl = Fin real | PInf | NInf | NaN

fun fneg :: "fl \<Rightarrow> fl" where
  "fneg (Fin a) = Fin (- a)"
| "fneg PInf = NInf"
| "fneg NInf = PInf"
| "fneg NaN = NaN"

fun fadd :: "fl \<Rightarrow> fl \<Rightarrow> fl" where
  "fadd NaN y = NaN"
| "fadd x NaN = NaN"
| "fadd (Fin a) (Fin b) = Fin (a + b)"
| "fadd PInf NInf = NaN"
| "fadd NInf PInf = NaN"
| "fadd PInf y = PInf"
| "fadd x PInf = PInf"
| "fadd NInf y = NInf"
| "fadd x NInf = NInf"

definition fsub :: "fl \<Rightarrow> fl \<Rightarrow> fl" where
  "fsub x y = fadd x (fneg y)"

fun fmul :: "fl \<Rightarrow> fl \<Rightarrow> fl" where
  "fmul NaN y = NaN"
| "fmul x NaN = NaN"
| "fmul (Fin a) (Fin b) = Fin (a * b)"
| "fmul PInf (Fin b) = (if b = 0 then NaN else if 0 < b then PInf else NInf)"
| "fmul NInf (Fin b) = (if b = 0 then NaN else if 0 < b then NInf else PInf)"
| "fmul (Fin a) PInf = (if a = 0 then NaN else if 0 < a then PInf else NInf)"
| "fmul (Fin a) NInf = (if a = 0 then NaN else if 0 < a then NInf else PInf)"
| "fmul PInf PInf = PInf"
| "fmul NInf NInf = PInf"
| "fmul PInf NInf = NInf"
| "fmul NInf PInf = NInf"

fun fdiv :: "fl \<Rightarrow> fl \<Rightarrow> fl" where
  "fdiv NaN y = NaN"
| "fdiv x NaN = NaN"
| "fdiv (Fin a) (Fin b) =
     (if b \<noteq> 0 then Fin (a / b)
      else if a = 0 then NaN
      else if 0 < a then PInf else NInf)"
| "fdiv (Fin a) y = Fin 0"
| "fdiv PInf (Fin b) = (if 0 \<le> b then PInf else NInf)"
| "fdiv NInf (Fin b) = (if 0 \<le> b then NInf else PInf)"
| "fdiv x y = NaN"

fun fsqrt :: "fl \<Rightarrow> fl" where
  "fsqrt (Fin a) = (if 0 \<le> a then Fin (sqrt a) else NaN)"
| "fsqrt PInf = PInf"
| "fsqrt x = NaN"

fun fsin :: "fl \<Rightarrow> fl" where
  "fsin (Fin a) = Fin (sin a)"
| "fsin x = NaN"

fun fcos :: "fl \<Rightarrow> fl" where
  "fcos (Fin a) = Fin (cos a)"
| "fcos x = NaN"

fun farccos :: "fl \<Rightarrow> fl" where
  "farccos (Fin a) = (if - 1 \<le> a \<and> a \<le> 1 then Fin (arccos a) else NaN)"
| "farccos x = NaN"

fun fhypot :: "fl \<Rightarrow> fl \<Rightarrow> fl" where
  "fhypot (Fin a) (Fin b) = Fin (sqrt (a * a + b * b))"
| "fhypot PInf y = PInf"
| "fhypot NInf y = PInf"
| "fhypot x PInf = PInf"
| "fhypot x NInf = PInf"
| "fhypot x y = NaN"

definition arctan2_real :: "real \<Rightarrow> real \<Rightarrow> real" where
  "arctan2_real y x =
     (if 0 < x then arctan (y / x)
      else if x < 0 then (if 0 \<le> y then arctan (y / x) + pi else arctan (y / x) - pi)
      else if 0 < y then pi / 2
      else if y < 0 then - (pi / 2)
      else 0)"

fun farctan2 :: "fl \<Rightarrow> fl \<Rightarrow> fl" where
  "farctan2 NaN x = NaN"
| "farctan2 y NaN = NaN"
| "farctan2 (Fin b) (Fin a) = Fin (arctan2_real b a)"
| "farctan2 (Fin b) PInf = Fin 0"
| "farctan2 (Fin b) NInf = (if 0 \<le> b then Fin pi else Fin (- pi))"
| "farctan2 PInf (Fin a) = Fin (pi / 2)"
| "farctan2 NInf (Fin a) = Fin (- (pi / 2))"
| "farctan2 PInf PInf = Fin (pi / 4)"
| "farctan2 NInf PInf = Fin (- (pi / 4))"
| "farctan2 PInf NInf = Fin (3 * pi / 4)"
| "farctan2 NInf NInf = Fin (- (3 * pi / 4))"

text \<open>
  \<^verbatim>\<open>u.allclose(a, b)\<close> on scalars, with its defaults \<^verbatim>\<open>rtol=1e-5\<close> and a zero
  absolute tolerance: finite values are compared with the relative bound on the second
  argument, equal infinities are close, and NaN is close to nothing.
\<close>

fun allclose :: "fl \<Rightarrow> fl \<Rightarrow> bool" where
  "allclose (Fin a) (Fin b) = (\<bar>a - b\<bar> \<le> \<bar>b\<bar> / 100000)"
| "allclose PInf PInf = True"
| "allclose NInf NInf = True"
| "allclose x y = False"

section \<open>Vectors, matrices and representations\<close>

type_synonym vec = "fl \<times> fl \<times> fl"
type_synonym matrix = "vec \<times> vec \<times> vec"

fun vneg :: "vec \<Rightarrow> vec" where
  "vneg (x, y, z) = (fneg x, fneg y, fneg z)"

fun vadd :: "vec \<Rightarrow> vec \<Rightarrow> vec" where
  "vadd (x1, y1, z1) (x2, y2, z2) = (fadd x1 x2, fadd y1 y2, fadd z1 z2)"

fun vsub :: "vec \<Rightarrow> vec \<Rightarrow> vec" where
  "vsub (x1, y1, z1) (x2, y2, z2) = (fsub x1 x2, fsub y1 y2, fsub z1 z2)"

fun vscale :: "vec \<Rightarrow> vec \<Rightarrow> vec" where
  \<comment> \<open>\<^verbatim>\<open>(A.xyz.T * [a, b, c]).T\<close>: the components multiplied one by one.\<close>
  "vscale (x, y, z) (a, b, c) = (fmul x a, fmul y b, fmul z c)"

fun dot :: "vec \<Rightarrow> vec \<Rightarrow> fl" where
  "dot (x1, y1, z1) (x2, y2, z2) = fadd (fadd (fmul x1 x2) (fmul y1 y2)) (fmul z1 z2)"

fun cross :: "vec \<Rightarrow> vec \<Rightarrow> vec" where
  "cross (x1, y1, z1) (x2, y2, z2) =
     (fsub (fmul y1 z2) (fmul z1 y2),
      fsub (fmul z1 x2) (fmul x1 z2),
      fsub (fmul x1 y2) (fmul y1 x2))"

definition norm_vec :: "vec \<Rightarrow> fl" where
  "norm_vec v = fsqrt (dot v v)"

fun matrix_apply :: "matrix \<Rightarrow> vec \<Rightarrow> vec" where
  "matrix_apply (r0, r1, r2) v = (dot r0 v, dot r1 v, dot r2 v)"

fun matrix_transpose :: "matrix \<Rightarrow> matrix" where
  "matrix_transpose ((a, b, c), (d, e, f), (g, h, i)) = ((a, d, g), (b, e, h), (c, f, i))"

definition matrix_product :: "matrix \<Rightarrow> matrix \<Rightarrow> matrix" where
  "matrix_product m n =
     (case matrix_transpose n of (c0, c1, c2) \<Rightarrow>
        matrix_transpose (matrix_apply m c0, matrix_apply m c1, matrix_apply m c2))"

definition nan_matrix :: matrix where
  "nan_matrix = ((NaN, NaN, NaN), (NaN, NaN, NaN), (NaN, NaN, NaN))"

definition identity_matrix :: matrix where
  "identity_matrix = ((Fin 1, Fin 0, Fin 0), (Fin 0, Fin 1, Fin 0), (Fin 0, Fin 0, Fin 1))"

text \<open>
  A representation is Cartesian, spherical (longitude, latitude, distance) or unit
  spherical (longitude, latitude). Lengths are in metres and angles in radians; units
  are not modelled. A longitude is wrapped into the range from 0 to a full turn.
\<close>

datatype repr =
    CartesianRepresentation vec
  | SphericalRepresentation fl fl fl
  | UnitSphericalRepresentation fl fl

fun Longitude :: "fl \<Rightarrow> fl" where
  "Longitude (Fin a) = Fin (a - 2 * pi * of_int \<lfloor>a / (2 * pi)\<rfloor>)"
| "Longitude x = NaN"

fun to_cartesian :: "repr \<Rightarrow> vec" where
  "to_cartesian (CartesianRepresentation v) = v"
| "to_cartesian (SphericalRepresentation lon lat d) =
     (fmul (fmul d (fcos lat)) (fcos lon),
      fmul (fmul d (fcos lat)) (fsin lon),
      fmul d (fsin lat))"
| "to_cartesian (UnitSphericalRepresentation lon lat) =
     (fmul (fcos lat) (fcos lon), fmul (fcos lat) (fsin lon), fsin lat)"

fun spherical_from_cartesian :: "vec \<Rightarrow> fl \<times> fl \<times> fl" where
  \<comment> \<open>Longitude, latitude and distance of a Cartesian vector.\<close>
  "spherical_from_cartesian (x, y, z) =
     (let s = fhypot x y; r = fhypot s z
      in (Longitude (farctan2 y x), farctan2 z s, r))"

fun spherical_components :: "repr \<Rightarrow> fl \<times> fl \<times> fl" where
  "spherical_components (SphericalRepresentation lon lat d) = (lon, lat, d)"
| "spherical_components (UnitSphericalRepresentation lon lat) = (lon, lat, Fin 1)"
| "spherical_components (CartesianRepresentation v) = spherical_from_cartesian v"

definition represent_as_spherical :: "repr \<Rightarrow> repr" where
  \<comment> \<open>\<^verbatim>\<open>rep.represent_as(SphericalRepresentation)\<close>\<close>
  "represent_as_spherical r =
     (case spherical_components r of (lon, lat, d) \<Rightarrow> SphericalRepresentation lon lat d)"

section \<open>The rotation-matrix kernel\<close>

text \<open>
  Modelled from the spec: \<^verbatim>\<open>rotation_matrix(angle, axis)\<close> is imported from Astropy
  and is not part of the sources. The spec calls it \<^verbatim>\<open>axis_angle_matrix\<close>: a closed
  form for a named axis, Rodrigues' formula about the axis for a vector. Astropy divides
  the axis vector by its Euclidean length first, then fills the matrix entry by entry;
  the definition follows that order.
\<close>

datatype axis = AxisX | AxisY | AxisZ | AxisVector vec

fun rotation_matrix :: "fl \<Rightarrow> axis \<Rightarrow> matrix" where
  "rotation_matrix angle AxisX =
     (let s = fsin angle; c = fcos angle
      in ((Fin 1, Fin 0, Fin 0), (Fin 0, c, s), (Fin 0, fneg s, c)))"
| "rotation_matrix angle AxisY =
     (let s = fsin angle; c = fcos angle
      in ((c, Fin 0, fneg s), (Fin 0, Fin 1, Fin 0), (s, Fin 0, c)))"
| "rotation_matrix angle AxisZ =
     (let s = fsin angle; c = fcos angle
      in ((c, s, Fin 0), (fneg s, c, Fin 0), (Fin 0, Fin 0, Fin 1)))"
| "rotation_matrix angle (AxisVector (ax, ay, az)) =
     (let s = fsin angle; c = fcos angle;
          n = fsqrt (fadd (fadd (fmul ax ax) (fmul ay ay)) (fmul az az));
          x = fdiv ax n; y = fdiv ay n; z = fdiv az n;
          k = fsub (Fin 1) c
      in ((fadd (fmul (fmul x x) k) c,
           fadd (fmul (fmul x y) k) (fmul z s),
           fsub (fmul (fmul x z) k) (fmul y s)),
          (fsub (fmul (fmul y x) k) (fmul z s),
           fadd (fmul (fmul y y) k) c,
           fadd (fmul (fmul y z) k) (fmul x s)),
          (fadd (fmul (fmul z x) k) (fmul y s),
           fsub (fmul (fmul z y) k) (fmul x s),
           fadd (fmul (fmul z z) k) c)))"

definition rotation_matrix_reprs_to_reprs :: "repr \<Rightarrow> repr \<Rightarrow> matrix" where
  \<comment> \<open>The scalar branch of \<^verbatim>\<open>_rotation_matrix_reprs_to_reprs\<close>.\<close>
  "rotation_matrix_reprs_to_reprs start_representation end_representation =
     (let A = to_cartesian start_representation;
          B = to_cartesian end_representation;
          rotation_axis = cross A B;
          rotation_angle = fneg (farccos (fdiv (dot A B) (fmul (norm_vec A) (norm_vec B))))
      in rotation_matrix rotation_angle (AxisVector rotation_axis))"

definition rotation_matrix_reprs_to_xz_about_z :: "repr \<Rightarrow> matrix" where
  "rotation_matrix_reprs_to_xz_about_z representations =
     (let A = to_cartesian representations;
          A_no_z = CartesianRepresentation (vscale A (Fin 1, Fin 1, Fin 0));
          x_axis = CartesianRepresentation (Fin 1, Fin 0, Fin 0)
      in rotation_matrix_reprs_to_reprs A_no_z x_axis)"

section \<open>Errors, frames and observers\<close>

text \<open>
  An exception is a value: its Python class and what it is about. A function that can
  raise returns \<open>error + 'a\<close>, and \<open>seq\<close> runs the next statement on a result and
  passes an exception on.
\<close>

datatype message =
    NeedsObstime
  | NoData
  | NotBothFrames
  | ObserverNotFrame
  | HasDifferentials
  | Broadcast
  | AmbiguousTruth
  | Name string

datatype error =
    ValueError message
  | ConvertError message
  | NameError message
  | AttributeError message
  | TypeError message

definition seq :: "error + 'a \<Rightarrow> ('a \<Rightarrow> error + 'b) \<Rightarrow> error + 'b" where
  "seq m f = (case m of Inl e \<Rightarrow> Inl e | Inr x \<Rightarrow> f x)"

subsection \<open>Observation times and their comparison\<close>

text \<open>
  An obstime is a scalar time or a one-dimensional array of times (Julian dates), or
  \<^verbatim>\<open>None\<close>. Comparing two times with \<^verbatim>\<open>==\<close> or \<^verbatim>\<open>!=\<close> is elementwise: the
  result is a single truth value for two scalars and an array of truth values as soon as
  one side is an array, by NumPy's broadcasting (arrays of equal length, or one of
  length one; anything else raises). \<^verbatim>\<open>None\<close> equals only \<^verbatim>\<open>None\<close>. The functions
  \<^verbatim>\<open>np.all\<close> and \<^verbatim>\<open>np.any\<close> reduce such a result to one truth value. Where Python
  needs the truth of a value (\<^verbatim>\<open>if\<close>, \<^verbatim>\<open>and\<close>), an array of more than one element
  raises \<^verbatim>\<open>ValueError\<close>, and an array of one element has the truth of that element.

  The data of a coordinate is a single vector and a collaborator answers with a
  single value: the geometry is that of a scalar coordinate. The shape of an obstime
  matters where obstimes are compared.
\<close>

datatype time = Scalar real | Array "real list"

datatype truth_value = Truth bool | Elementwise "bool list"

fun broadcast :: "(real \<Rightarrow> real \<Rightarrow> bool) \<Rightarrow> real list \<Rightarrow> real list \<Rightarrow> error + bool list" where
  "broadcast f [x] ys = Inr (map (f x) ys)"
| "broadcast f xs [y] = Inr (map (\<lambda>x. f x y) xs)"
| "broadcast f xs ys =
     (if length xs = length ys then Inr (map2 f xs ys) else Inl (ValueError Broadcast))"

fun time_eq :: "time option \<Rightarrow> time option \<Rightarrow> error + truth_value" where
  \<comment> \<open>\<^verbatim>\<open>a == b\<close> on two obstimes\<close>
  "time_eq None None = Inr (Truth True)"
| "time_eq None (Some b) = Inr (Truth False)"
| "time_eq (Some a) None = Inr (Truth False)"
| "time_eq (Some (Scalar a)) (Some (Scalar b)) = Inr (Truth (a = b))"
| "time_eq (Some (Scalar a)) (Some (Array bs)) = Inr (Elementwise (map (\<lambda>b. a = b) bs))"
| "time_eq (Some (Array as)) (Some (Scalar b)) = Inr (Elementwise (map (\<lambda>a. a = b) as))"
| "time_eq (Some (Array as)) (Some (Array bs)) =
     seq (broadcast (\<lambda>a b. a = b) as bs) (\<lambda>r. Inr (Elementwise r))"

fun time_ne :: "time option \<Rightarrow> time option \<Rightarrow> error + truth_value" where
  \<comment> \<open>\<^verbatim>\<open>a != b\<close> on two obstimes\<close>
  "time_ne None None = Inr (Truth False)"
| "time_ne None (Some b) = Inr (Truth True)"
| "time_ne (Some a) None = Inr (Truth True)"
| "time_ne (Some (Scalar a)) (Some (Scalar b)) = Inr (Truth (a \<noteq> b))"
| "time_ne (Some (Scalar a)) (Some (Array bs)) = Inr (Elementwise (map (\<lambda>b. a \<noteq> b) bs))"
| "time_ne (Some (Array as)) (Some (Scalar b)) = Inr (Elementwise (map (\<lambda>a. a \<noteq> b) as))"
| "time_ne (Some (Array as)) (Some (Array bs)) =
     seq (broadcast (\<lambda>a b. a \<noteq> b) as bs) (\<lambda>r. Inr (Elementwise r))"

fun np_all :: "truth_value \<Rightarrow> bool" where
  "np_all (Truth b) = b"
| "np_all (Elementwise bs) = list_all (\<lambda>b. b) bs"

fun np_any :: "truth_value \<Rightarrow> bool" where
  "np_any (Truth b) = b"
| "np_any (Elementwise bs) = list_ex (\<lambda>b. b) bs"

fun truth :: "truth_value \<Rightarrow> error + bool" where
  \<comment> \<open>The truth of a value in a condition.\<close>
  "truth (Truth b) = Inr b"
| "truth (Elementwise []) = Inr False"
| "truth (Elementwise [b]) = Inr b"
| "truth (Elementwise bs) = Inl (ValueError AmbiguousTruth)"

definition all_equal :: "time option \<Rightarrow> time option \<Rightarrow> error + bool" where
  \<comment> \<open>\<^verbatim>\<open>np.all(a == b)\<close>\<close>
  "all_equal a b = seq (time_eq a b) (\<lambda>r. Inr (np_all r))"

definition any_differ :: "time option \<Rightarrow> time option \<Rightarrow> error + bool" where
  \<comment> \<open>\<^verbatim>\<open>np.any(a != b)\<close>\<close>
  "any_differ a b = seq (time_ne a b) (\<lambda>r. Inr (np_any r))"

subsection \<open>Frames\<close>

text \<open>
  The data of a frame is a representation with an optional velocity (the differential
  \<^verbatim>\<open>'s'\<close>, kept Cartesian). An observer is absent, a name such as \<^verbatim>\<open>"earth"\<close>, or a
  frame object: the address of the object and the frame found there. Two observer
  attributes that hold the same object have the same address.
\<close>

datatype frame_kind =
    ICRS
  | HCRS
  | HeliocentricMeanEcliptic
  | HeliographicStonyhurst
  | HeliographicCarrington
  | Heliocentric
  | Helioprojective
  | HeliocentricEarthEcliptic
  | GeocentricSolarEcliptic
  | HeliocentricInertial
  | GeocentricEarthEquatorial

datatype coord_data = CoordData (rep: repr) (differentials: "vec option")

datatype frame =
    Frame (kind: frame_kind) (data: "coord_data option") (obstime: "time option")
      (observer: observer) (equinox: "time option")
and observer =
    NoObserver
  | ObserverName string
  | ObserverFrame nat frame

type_synonym cart = "vec \<times> vec option"

definition J2000 :: time where
  "J2000 = Scalar 2451545"

definition replicate_obstime :: "frame \<Rightarrow> time option \<Rightarrow> frame" where
  \<comment> \<open>The frame that \<^verbatim>\<open>frame.replicate(obstime=t)\<close> builds from a frame with data.\<close>
  "replicate_obstime f t = Frame (kind f) (data f) t (observer f) (equinox f)"

definition realize_frame :: "frame \<Rightarrow> coord_data \<Rightarrow> frame" where
  "realize_frame f d = Frame (kind f) (Some d) (obstime f) (observer f) (equinox f)"

definition frame_data :: "frame \<Rightarrow> error + coord_data" where
  \<comment> \<open>The \<^verbatim>\<open>data\<close> property raises on a frame without data.\<close>
  "frame_data f = (case data f of None \<Rightarrow> Inl (ValueError NoData) | Some d \<Rightarrow> Inr d)"

definition frame_cartesian :: "frame \<Rightarrow> error + cart" where
  "frame_cartesian f =
     seq (frame_data f) (\<lambda>d. Inr (to_cartesian (rep d), differentials d))"

definition cart_data :: "cart \<Rightarrow> coord_data" where
  "cart_data c = CoordData (CartesianRepresentation (fst c)) (snd c)"

definition cart_transform :: "matrix \<Rightarrow> cart \<Rightarrow> cart" where
  \<comment> \<open>\<^verbatim>\<open>rep.transform(matrix)\<close> rotates the position and the velocity.\<close>
  "cart_transform m c = (matrix_apply m (fst c), map_option (matrix_apply m) (snd c))"

definition cart_add :: "cart \<Rightarrow> cart \<Rightarrow> error + cart" where
  \<comment> \<open>Astropy refuses to add or subtract representations that carry differentials.\<close>
  "cart_add a b =
     (if snd a \<noteq> None \<or> snd b \<noteq> None then Inl (TypeError HasDifferentials)
      else Inr (vadd (fst a) (fst b), None))"

definition cart_sub :: "cart \<Rightarrow> cart \<Rightarrow> error + cart" where
  "cart_sub a b =
     (if snd a \<noteq> None \<or> snd b \<noteq> None then Inl (TypeError HasDifferentials)
      else Inr (vsub (fst a) (fst b), None))"

text \<open>
  The component names of a frame follow its kind: \<^verbatim>\<open>lon\<close> and \<^verbatim>\<open>lat\<close> exist on the
  spherical frames, \<^verbatim>\<open>radius\<close> on the two heliographic ones. A missing name is an
  \<^verbatim>\<open>AttributeError\<close>; a frame without data raises when a component is read.
\<close>

definition has_lon_lat :: "frame_kind \<Rightarrow> bool" where
  "has_lon_lat k =
     (k = HeliographicStonyhurst \<or> k = HeliographicCarrington \<or> k = HeliocentricMeanEcliptic \<or>
      k = HeliocentricEarthEcliptic \<or> k = GeocentricSolarEcliptic \<or> k = HeliocentricInertial \<or>
      k = GeocentricEarthEquatorial)"

definition has_radius :: "frame_kind \<Rightarrow> bool" where
  "has_radius k = (k = HeliographicStonyhurst \<or> k = HeliographicCarrington)"

definition frame_spherical :: "frame \<Rightarrow> error + (fl \<times> fl \<times> fl)" where
  "frame_spherical f = seq (frame_data f) (\<lambda>d. Inr (spherical_components (rep d)))"

definition frame_lat :: "frame \<Rightarrow> error + fl" where
  "frame_lat f =
     (if \<not> has_lon_lat (kind f) then Inl (AttributeError (Name ''lat''))
      else seq (frame_spherical f) (\<lambda>(lon, lat, r). Inr lat))"

definition frame_lon :: "frame \<Rightarrow> error + fl" where
  "frame_lon f =
     (if \<not> has_lon_lat (kind f) then Inl (AttributeError (Name ''lon''))
      else seq (frame_spherical f) (\<lambda>(lon, lat, r). Inr lon))"

definition frame_radius :: "frame \<Rightarrow> error + fl" where
  "frame_radius f =
     (if \<not> has_radius (kind f) then Inl (AttributeError (Name ''radius''))
      else seq (frame_spherical f) (\<lambda>(lon, lat, r). Inr r))"

fun is_frame :: "observer \<Rightarrow> bool" where
  \<comment> \<open>\<^verbatim>\<open>isinstance(obs, BaseCoordinateFrame)\<close>\<close>
  "is_frame (ObserverFrame i f) = True"
| "is_frame obs = False"

fun py_eq :: "observer \<Rightarrow> observer \<Rightarrow> bool" where
  \<comment> \<open>\<^verbatim>\<open>obs_1 == obs_2\<close>: equal names, \<^verbatim>\<open>None\<close> twice, or one and the same frame
      object. Frames define no equality of their own, so two frame objects with equal
      attributes are not \<^verbatim>\<open>==\<close>.\<close>
  "py_eq NoObserver NoObserver = True"
| "py_eq (ObserverName a) (ObserverName b) = (a = b)"
| "py_eq (ObserverFrame i f) (ObserverFrame j g) = (i = j)"
| "py_eq a b = False"

text \<open>
  \<^verbatim>\<open>_observers_are_equal\<close>. The value returned for two frames whose components are
  close is the comparison of their obstimes as it is: \<^verbatim>\<open>a and b and c and d\<close> returns
  \<open>d\<close> when the first three are true, and \<open>d\<close> is an array when an obstime is.
\<close>

definition observers_are_equal :: "observer \<Rightarrow> observer \<Rightarrow> bool \<Rightarrow> error + truth_value" where
  "observers_are_equal obs_1 obs_2 string_ok =
     (if string_ok \<and> py_eq obs_1 obs_2 then Inr (Truth True)
      else case (obs_1, obs_2) of
        (ObserverFrame i f1, ObserverFrame j f2) \<Rightarrow>
          seq (frame_lat f1) (\<lambda>lat1. seq (frame_lat f2) (\<lambda>lat2.
            if \<not> allclose lat1 lat2 then Inr (Truth False)
            else seq (frame_lon f1) (\<lambda>lon1. seq (frame_lon f2) (\<lambda>lon2.
              if \<not> allclose lon1 lon2 then Inr (Truth False)
              else seq (frame_radius f1) (\<lambda>r1. seq (frame_radius f2) (\<lambda>r2.
                if \<not> allclose r1 r2 then Inr (Truth False)
                else time_eq (obstime f1) (obstime f2)))))))
      | _ \<Rightarrow> Inl (ValueError NotBothFrames))"

section \<open>The collaborators\<close>

text \<open>
  What the module calls and does not define is a parameter of the model: Astropy's
  \<^verbatim>\<open>transform_to\<close> along a path of the transform graph (to a frame, or to a frame
  class), the ephemeris, the Carrington longitude \<^verbatim>\<open>L0\<close> of \<^verbatim>\<open>sunpy.coordinates.sun\<close>
  and \<^verbatim>\<open>calculate_distance\<close> of the Helioprojective frame. Each can raise.
  \<open>new_address\<close> is the address that the interpreter gives to a frame object created
  during a call and kept as an observer.
\<close>

datatype target = ToFrame frame | ToClass frame_kind

datatype body = Sun | Earth

record collaborators =
  transform_to :: "frame \<Rightarrow> target \<Rightarrow> error + frame"
  get_body_barycentric :: "body \<Rightarrow> time option \<Rightarrow> error + vec"
  get_body_barycentric_posvel :: "body \<Rightarrow> time option \<Rightarrow> error + (vec \<times> vec)"
  L0 :: "time \<Rightarrow> error + fl"
  calculate_distance :: "frame \<Rightarrow> error + frame"
  new_address :: nat

section \<open>The loopback to a new observation time\<close>

text \<open>
  \<^verbatim>\<open>frame.replicate(obstime=obstime)\<close> reads the data of the frame, so it raises on a
  frame without data.
\<close>

definition transform_obstime :: "collaborators \<Rightarrow> frame \<Rightarrow> time option \<Rightarrow> error + frame" where
  "transform_obstime E frame ot =
     (if ot = None then Inr frame
      else seq (all_equal (obstime frame) ot) (\<lambda>same.
        if same then Inr frame
        else seq (frame_data frame) (\<lambda>d.
          let new_frame = replicate_obstime frame ot
          in if obstime frame \<noteq> None then transform_to E frame (ToFrame new_frame)
             else Inr new_frame)))"

definition transform_obstime_observer ::
  "collaborators \<Rightarrow> observer \<Rightarrow> time option \<Rightarrow> error + observer" where
  \<comment> \<open>\<^verbatim>\<open>_transform_obstime\<close> called on an observer attribute: a name or \<^verbatim>\<open>None\<close> has no
      \<^verbatim>\<open>obstime\<close>, which is read unless the new obstime is \<^verbatim>\<open>None\<close>. The result is the
      observer itself where the function returns its argument, a new object otherwise.\<close>
  "transform_obstime_observer E obs ot =
     (if ot = None then Inr obs
      else case obs of
        ObserverFrame i f \<Rightarrow>
          seq (all_equal (obstime f) ot) (\<lambda>same.
            if same then Inr obs
            else seq (transform_obstime E f ot) (\<lambda>g. Inr (ObserverFrame (new_address E) g)))
      | _ \<Rightarrow> Inl (AttributeError (Name ''obstime'')))"

section \<open>Transformations registered in the graph\<close>

text \<open>
  \<^verbatim>\<open>coord.transform_to(frame)\<close> between two kinds whose transformation this module
  registers: Astropy refuses a coordinate without data and then runs the registered
  function. When the data carries a velocity, the finite-difference wrapper of Astropy
  is in charge, which is the collaborator's business.
\<close>

definition call_registered ::
  "collaborators \<Rightarrow> (frame \<Rightarrow> frame \<Rightarrow> error + frame) \<Rightarrow> frame \<Rightarrow> frame \<Rightarrow> error + frame" where
  "call_registered E f coord new_frame =
     (case data coord of
        None \<Rightarrow> Inl (ValueError NoData)
      | Some d \<Rightarrow>
          if differentials d \<noteq> None then transform_to E coord (ToFrame new_frame)
          else f coord new_frame)"

definition bare_frame :: "frame_kind \<Rightarrow> time option \<Rightarrow> frame" where
  \<comment> \<open>\<^verbatim>\<open>Kind(obstime=t)\<close>: a frame without data.\<close>
  "bare_frame k t = Frame k None t NoObserver None"

subsection \<open>Heliographic Stonyhurst and Carrington\<close>

definition rotation_matrix_hgs_to_hgc :: "collaborators \<Rightarrow> time option \<Rightarrow> error + matrix" where
  "rotation_matrix_hgs_to_hgc E ot =
     (case ot of
        None \<Rightarrow> Inl (ValueError NeedsObstime)
      | Some t \<Rightarrow> seq (L0 E t) (\<lambda>l. Inr (rotation_matrix (fneg l) AxisZ)))"

definition hgs_to_hgc :: "collaborators \<Rightarrow> frame \<Rightarrow> frame \<Rightarrow> error + frame" where
  "hgs_to_hgc E hgscoord hgcframe =
     seq (transform_obstime E hgscoord (obstime hgcframe)) (\<lambda>int_coord.
     seq (rotation_matrix_hgs_to_hgc E (obstime int_coord)) (\<lambda>total_matrix.
     seq (frame_cartesian int_coord) (\<lambda>c.
     Inr (realize_frame hgcframe (cart_data (cart_transform total_matrix c))))))"

definition hgc_to_hgs :: "collaborators \<Rightarrow> frame \<Rightarrow> frame \<Rightarrow> error + frame" where
  "hgc_to_hgs E hgccoord hgsframe =
     seq (transform_obstime E hgccoord (obstime hgsframe)) (\<lambda>int_coord.
     seq (rotation_matrix_hgs_to_hgc E (obstime int_coord)) (\<lambda>m.
     let total_matrix = matrix_transpose m in
     seq (frame_cartesian int_coord) (\<lambda>c.
     Inr (realize_frame hgsframe (cart_data (cart_transform total_matrix c))))))"

subsection \<open>Transformations within one kind\<close>

definition hgs_to_hgs :: "collaborators \<Rightarrow> frame \<Rightarrow> frame \<Rightarrow> error + frame" where
  "hgs_to_hgs E from_coo to_frame =
     seq (all_equal (obstime from_coo) (obstime to_frame)) (\<lambda>same.
      if same
      then seq (frame_data from_coo) (\<lambda>d. Inr (realize_frame to_frame d))
      else seq (transform_to E from_coo (ToFrame (bare_frame HCRS (obstime from_coo))))
             (\<lambda>c. transform_to E c (ToFrame to_frame)))"

definition hgc_to_hgc :: "collaborators \<Rightarrow> frame \<Rightarrow> frame \<Rightarrow> error + frame" where
  "hgc_to_hgc E from_coo to_frame =
     seq (all_equal (obstime from_coo) (obstime to_frame)) (\<lambda>same.
      if same
      then seq (frame_data from_coo) (\<lambda>d. Inr (realize_frame to_frame d))
      else seq (transform_to E from_coo
                  (ToFrame (bare_frame HeliographicStonyhurst (obstime from_coo))))
             (\<lambda>c. transform_to E c (ToFrame to_frame)))"

definition same_observer_and_obstime :: "frame \<Rightarrow> frame \<Rightarrow> error + bool" where
  \<comment> \<open>The condition \<^verbatim>\<open>_observers_are_equal(from_coo.observer, to_frame.observer,
      string_ok=True) and np.all(from_coo.obstime == to_frame.obstime)\<close>: \<^verbatim>\<open>and\<close> takes
      the truth of its first operand and evaluates the second only if that is true.\<close>
  "same_observer_and_obstime from_coo to_frame =
     seq (observers_are_equal (observer from_coo) (observer to_frame) True) (\<lambda>r.
     seq (truth r) (\<lambda>equal_observers.
     if equal_observers then all_equal (obstime from_coo) (obstime to_frame) else Inr False))"

definition hcc_to_hcc :: "collaborators \<Rightarrow> frame \<Rightarrow> frame \<Rightarrow> error + frame" where
  "hcc_to_hcc E from_coo to_frame =
     seq (same_observer_and_obstime from_coo to_frame) (\<lambda>same.
     if same
     then seq (frame_data from_coo) (\<lambda>d. Inr (realize_frame to_frame d))
     else seq (transform_to E from_coo
                 (ToFrame (bare_frame HeliographicStonyhurst (obstime to_frame))))
            (\<lambda>hgscoord. transform_to E hgscoord (ToFrame to_frame)))"

definition hpc_to_hpc :: "collaborators \<Rightarrow> frame \<Rightarrow> frame \<Rightarrow> error + frame" where
  "hpc_to_hpc E from_coo to_frame =
     seq (same_observer_and_obstime from_coo to_frame) (\<lambda>same.
     if same
     then seq (frame_data from_coo) (\<lambda>d. Inr (realize_frame to_frame d))
     else if \<not> is_frame (observer to_frame) then Inl (ConvertError ObserverNotFrame)
     else if \<not> is_frame (observer from_coo) then Inl (ConvertError ObserverNotFrame)
     else seq (transform_to E from_coo
                 (ToFrame (bare_frame HeliographicStonyhurst (obstime to_frame))))
            (\<lambda>hgs. transform_to E hgs (ToFrame to_frame)))"

definition hee_to_hee :: "collaborators \<Rightarrow> frame \<Rightarrow> frame \<Rightarrow> error + frame" where
  "hee_to_hee E from_coo to_frame =
     seq (all_equal (obstime from_coo) (obstime to_frame)) (\<lambda>same.
      if same
      then seq (frame_data from_coo) (\<lambda>d. Inr (realize_frame to_frame d))
      else seq (transform_to E from_coo (ToClass HCRS))
             (\<lambda>c. transform_to E c (ToFrame to_frame)))"

definition gse_to_gse :: "collaborators \<Rightarrow> frame \<Rightarrow> frame \<Rightarrow> error + frame" where
  "gse_to_gse E from_coo to_frame =
     seq (all_equal (obstime from_coo) (obstime to_frame)) (\<lambda>same.
      if same
      then seq (frame_data from_coo) (\<lambda>d. Inr (realize_frame to_frame d))
      else seq (transform_to E from_coo (ToClass HeliocentricEarthEcliptic))
             (\<lambda>c. transform_to E c (ToFrame to_frame)))"

definition hci_to_hci :: "collaborators \<Rightarrow> frame \<Rightarrow> frame \<Rightarrow> error + frame" where
  "hci_to_hci E from_coo to_frame =
     seq (all_equal (obstime from_coo) (obstime to_frame)) (\<lambda>same.
      if same
      then seq (frame_data from_coo) (\<lambda>d. Inr (realize_frame to_frame d))
      else seq (transform_to E from_coo (ToClass HCRS))
             (\<lambda>c. transform_to E c (ToFrame to_frame)))"

definition gei_to_gei :: "collaborators \<Rightarrow> frame \<Rightarrow> frame \<Rightarrow> error + frame" where
  "gei_to_gei E from_coo to_frame =
     seq (all_equal (obstime from_coo) (obstime to_frame)) (\<lambda>same.
      if same
      then seq (frame_data from_coo) (\<lambda>d. Inr (realize_frame to_frame d))
      else seq (transform_to E from_coo (ToClass HCRS))
             (\<lambda>c. transform_to E c (ToFrame to_frame)))"

subsection \<open>Heliocentric and Helioprojective\<close>

definition matrix_hcc_to_hpc :: matrix where
  "matrix_hcc_to_hpc =
     ((Fin 0, Fin 0, Fin (- 1)),
      (Fin 1, Fin 0, Fin 0),
      (Fin 0, Fin 1, Fin 0))"

definition observer_radius :: "observer \<Rightarrow> error + fl" where
  \<comment> \<open>\<^verbatim>\<open>observer.radius\<close>: a name or \<^verbatim>\<open>None\<close> has no such attribute.\<close>
  "observer_radius obs =
     (case obs of
        ObserverFrame i f \<Rightarrow> frame_radius f
      | _ \<Rightarrow> Inl (AttributeError (Name ''radius'')))"

definition represent_as_spherical_data :: "cart \<Rightarrow> coord_data" where
  \<comment> \<open>\<^verbatim>\<open>rep.represent_as(SphericalRepresentation)\<close> on a Cartesian representation; with
      no differential class given, a velocity is dropped.\<close>
  "represent_as_spherical_data c =
     CoordData (represent_as_spherical (CartesianRepresentation (fst c))) None"

definition hcc_to_hpc :: "collaborators \<Rightarrow> frame \<Rightarrow> frame \<Rightarrow> error + frame" where
  "hcc_to_hpc E helioccoord heliopframe =
     seq (transform_obstime_observer E (observer heliopframe) (obstime heliopframe)) (\<lambda>obs.
     let int_frame = Frame Heliocentric None (obstime heliopframe) obs None in
     seq (call_registered E (hcc_to_hcc E) helioccoord int_frame) (\<lambda>int_coord.
     seq (observer_radius (observer int_coord)) (\<lambda>distance.
     seq (frame_cartesian int_coord) (\<lambda>c.
     seq (cart_sub c ((Fin 0, Fin 0, distance), None)) (\<lambda>newrepr.
     let newrepr = cart_transform matrix_hcc_to_hpc newrepr in
     Inr (realize_frame heliopframe (represent_as_spherical_data newrepr)))))))"

definition hpc_to_hcc :: "collaborators \<Rightarrow> frame \<Rightarrow> frame \<Rightarrow> error + frame" where
  "hpc_to_hcc E heliopcoord heliocframe =
     (if \<not> is_frame (observer heliopcoord) then Inl (ConvertError ObserverNotFrame)
      else
        seq (calculate_distance E heliopcoord) (\<lambda>heliopcoord.
        seq (frame_cartesian heliopcoord) (\<lambda>c.
        let newrepr = cart_transform (matrix_transpose matrix_hcc_to_hpc) c in
        seq (transform_obstime_observer E (observer heliopcoord) (obstime heliopcoord)) (\<lambda>obs.
        seq (observer_radius obs) (\<lambda>distance.
        seq (cart_add newrepr ((Fin 0, Fin 0, distance), None)) (\<lambda>newrepr.
        let int_coord =
              Frame Heliocentric (Some (cart_data newrepr)) (obstime heliopcoord) obs None
        in call_registered E (hcc_to_hcc E) int_coord heliocframe))))))"

subsection \<open>HCRS and Heliographic Stonyhurst\<close>

definition sun_earth_icrf :: "collaborators \<Rightarrow> time option \<Rightarrow> error + vec" where
  "sun_earth_icrf E t =
     seq (get_body_barycentric E Sun t) (\<lambda>sun_pos_icrs.
     seq (get_body_barycentric E Earth t) (\<lambda>earth_pos_icrs.
     Inr (vsub earth_pos_icrs sun_pos_icrs)))"

definition SOLAR_NORTH_POLE_HCRS :: repr where
  "SOLAR_NORTH_POLE_HCRS =
     UnitSphericalRepresentation (Fin (286.13 * pi / 180)) (Fin (63.87 * pi / 180))"

definition SUN_DETILT_MATRIX :: matrix where
  "SUN_DETILT_MATRIX =
     rotation_matrix_reprs_to_reprs SOLAR_NORTH_POLE_HCRS
       (CartesianRepresentation (Fin 0, Fin 0, Fin 1))"

definition has_differentials :: "frame \<Rightarrow> bool" where
  \<comment> \<open>\<^verbatim>\<open>frame._data is not None and frame.data.differentials\<close>\<close>
  "has_differentials f =
     (case data f of None \<Rightarrow> False | Some d \<Rightarrow> differentials d \<noteq> None)"

definition hcrs_to_hgs :: "collaborators \<Rightarrow> frame \<Rightarrow> frame \<Rightarrow> error + (matrix \<times> cart)" where
  "hcrs_to_hgs E hcrscoord hgsframe =
     (if obstime hgsframe = None then Inl (ValueError NeedsObstime)
      else
        let with_velocity = (has_differentials hcrscoord \<or> has_differentials hgsframe) in
        seq (if with_velocity
             then seq (get_body_barycentric_posvel E Sun (obstime hgsframe)) (\<lambda>(sun_pos, sun_vel).
                  seq (get_body_barycentric_posvel E Earth (obstime hgsframe))
                    (\<lambda>(earth_pos, earth_vel).
                  Inr (sun_pos, earth_pos, Some (sun_vel, earth_vel))))
             else seq (get_body_barycentric E Sun (obstime hgsframe)) (\<lambda>sun_pos.
                  seq (get_body_barycentric E Earth (obstime hgsframe)) (\<lambda>earth_pos.
                  Inr (sun_pos, earth_pos, None))))
          (\<lambda>(sun_pos_icrs, earth_pos_icrs, vels).
        let sun_earth = vsub earth_pos_icrs sun_pos_icrs;
            sun_earth_detilt = matrix_apply SUN_DETILT_MATRIX sun_earth;
            rot_matrix =
              rotation_matrix_reprs_to_xz_about_z (CartesianRepresentation sun_earth_detilt);
            total_matrix = matrix_product rot_matrix SUN_DETILT_MATRIX
        in
        seq (seq (any_differ (obstime hcrscoord) (obstime hgsframe)) (\<lambda>differ.
             if differ
             then seq (get_body_barycentric E Sun (obstime hcrscoord)) (\<lambda>sun_pos_old_icrs.
                  Inr (vsub sun_pos_icrs sun_pos_old_icrs))
             else Inr (vscale sun_pos_icrs (Fin 0, Fin 0, Fin 0))))
          (\<lambda>offset_icrf.
        let offset =
              (case vels of
                 Some (sun_vel, earth_vel) \<Rightarrow> (offset_icrf, Some (vsub sun_vel earth_vel))
               | None \<Rightarrow> (offset_icrf, None))
        in Inr (total_matrix, cart_transform total_matrix offset))))"

definition hgs_to_hcrs :: "collaborators \<Rightarrow> frame \<Rightarrow> frame \<Rightarrow> error + (matrix \<times> cart)" where
  "hgs_to_hcrs E hgscoord hcrsframe =
     seq (hcrs_to_hgs E hcrsframe hgscoord) (\<lambda>(total_matrix, offset).
     let reverse_matrix = matrix_transpose total_matrix;
         offset =
           (case snd offset of
              Some s \<Rightarrow> (let pos = vneg (fst offset); vel = vneg s in (pos, Some vel))
            | None \<Rightarrow> (vneg (fst offset), None));
         reverse_offset = cart_transform reverse_matrix offset
     in Inr (reverse_matrix, reverse_offset))"

definition sun_earth_in :: "collaborators \<Rightarrow> frame \<Rightarrow> error + cart" where
  \<comment> \<open>The Sun-Earth vector in an intermediate frame: \<^verbatim>\<open>HCRS(_sun_earth_icrf(t), obstime=t)\<close>
      at the frame's obstime \<open>t\<close>, transformed to the frame, as Cartesian.\<close>
  "sun_earth_in E int_frame =
     seq (sun_earth_icrf E (obstime int_frame)) (\<lambda>se.
     let sun_earth =
           Frame HCRS (Some (CoordData (CartesianRepresentation se) None))
             (obstime int_frame) NoObserver None
     in seq (transform_to E sun_earth (ToFrame int_frame)) frame_cartesian)"

subsection \<open>Heliocentric Earth Ecliptic and Geocentric Solar Ecliptic\<close>

definition hee_to_gse :: "collaborators \<Rightarrow> frame \<Rightarrow> frame \<Rightarrow> error + frame" where
  "hee_to_gse E heecoord gseframe =
     (let int_frame = bare_frame HeliocentricEarthEcliptic (obstime gseframe) in
      seq (call_registered E (hee_to_hee E) heecoord int_frame) (\<lambda>int_coord.
      seq (sun_earth_in E int_frame) (\<lambda>sun_earth_int.
      seq (frame_cartesian int_coord) (\<lambda>c.
      seq (cart_sub c sun_earth_int) (\<lambda>earth_object_int.
      let newrepr = vscale (fst earth_object_int) (Fin (- 1), Fin (- 1), Fin 1) in
      Inr (realize_frame gseframe (CoordData (CartesianRepresentation newrepr) None)))))))"

subsection \<open>Heliocentric Mean Ecliptic and Geocentric Earth Equatorial\<close>

definition OBLIQUITY_J2000 :: fl where
  \<comment> \<open>\<^verbatim>\<open>obl06\<close> at J2000.0: 84381.406 arc seconds, in radians.\<close>
  "OBLIQUITY_J2000 = Fin (84381.406 * pi / 648000)"

definition mean_ecliptic_frame :: "time option \<Rightarrow> frame" where
  \<comment> \<open>\<^verbatim>\<open>HeliocentricMeanEcliptic(obstime=t, equinox=_J2000)\<close>\<close>
  "mean_ecliptic_frame t = Frame HeliocentricMeanEcliptic None t NoObserver (Some J2000)"

definition hme_to_gei :: "collaborators \<Rightarrow> frame \<Rightarrow> frame \<Rightarrow> error + frame" where
  "hme_to_gei E hmecoord geiframe =
     (let int_frame = mean_ecliptic_frame (obstime geiframe) in
      seq (seq (transform_to E hmecoord (ToClass HCRS))
             (\<lambda>c. transform_to E c (ToFrame int_frame))) (\<lambda>int_coord.
      seq (sun_earth_in E int_frame) (\<lambda>sun_earth_int.
      seq (frame_cartesian int_coord) (\<lambda>c.
      seq (cart_sub c sun_earth_int) (\<lambda>earth_object_int.
      let newrepr = cart_transform (rotation_matrix (fneg OBLIQUITY_J2000) AxisX) earth_object_int
      in Inr (realize_frame geiframe (cart_data newrepr)))))))"

text \<open>
  A name that a function body reads and never assigns is looked up among the names
  of the module when the statement runs (no builtin is called \<^verbatim>\<open>gsecoord\<close>). The
  names of the module are those it imports, assigns or defines; the value of a name
  matters here only when it is a representation, a matrix, an angle or a time.
\<close>

datatype pyval = ReprValue repr | MatrixValue matrix | AngleValue fl | TimeValue time | Opaque

definition module_globals :: "(string \<times> pyval) list" where
  "module_globals =
     map (\<lambda>n. (n, Opaque))
       [''deepcopy'', ''np'', ''u'', ''ICRS'', ''HCRS'', ''ConvertError'',
        ''BaseCoordinateFrame'', ''get_body_barycentric'', ''get_body_barycentric_posvel'',
        ''frame_transform_graph'', ''CartesianRepresentation'', ''SphericalRepresentation'',
        ''UnitSphericalRepresentation'', ''CartesianDifferential'', ''FunctionTransform'',
        ''AffineTransform'', ''FunctionTransformWithFiniteDifference'', ''matrix_product'',
        ''rotation_matrix'', ''matrix_transpose'', ''HeliocentricMeanEcliptic'', ''obl06'',
        ''get_jd12'', ''Time'', ''constants'', ''Heliocentric'', ''Helioprojective'',
        ''HeliographicCarrington'', ''HeliographicStonyhurst'', ''HeliocentricEarthEcliptic'',
        ''GeocentricSolarEcliptic'', ''HeliocentricInertial'', ''GeocentricEarthEquatorial'',
        ''make_transform_graph_docs'', ''_make_transform_graph_docs'', ''RSUN_METERS'',
        ''__all__'', ''_observers_are_equal'', ''_transform_obstime'',
        ''_rotation_matrix_hgs_to_hgc'', ''hgs_to_hgc'', ''hgc_to_hgs'', ''_matrix_hcc_to_hpc'',
        ''hcc_to_hpc'', ''hpc_to_hcc'', ''_rotation_matrix_hcc_to_hgs'', ''hcc_to_hgs'',
        ''hgs_to_hcc'', ''hpc_to_hpc'', ''_rotation_matrix_reprs_to_reprs'',
        ''_rotation_matrix_reprs_to_xz_about_z'', ''_sun_earth_icrf'', ''hcrs_to_hgs'',
        ''hgs_to_hcrs'', ''hgs_to_hgs'', ''hgc_to_hgc'', ''hcc_to_hcc'',
        ''_rotation_matrix_hme_to_hee'', ''hme_to_hee'', ''hee_to_hme'', ''hee_to_hee'',
        ''hee_to_gse'', ''gse_to_hee'', ''gse_to_gse'', ''_rotation_matrix_hme_to_hci'',
        ''hme_to_hci'', ''hci_to_hme'', ''hci_to_hci'', ''hme_to_gei'', ''gei_to_hme'',
        ''gei_to_gei'', ''_make_sunpy_graph'', ''_add_astropy_node'', ''_tweak_graph'',
        ''_add_legend_row'']
     @ [(''_J2000'', TimeValue J2000),
        (''_OBLIQUITY_J2000'', AngleValue OBLIQUITY_J2000),
        (''_SOLAR_NORTH_POLE_HCRS'', ReprValue SOLAR_NORTH_POLE_HCRS),
        (''_SUN_DETILT_MATRIX'', MatrixValue SUN_DETILT_MATRIX)]"

definition load_global :: "string \<Rightarrow> error + pyval" where
  "load_global n =
     (case map_of module_globals n of
        None \<Rightarrow> Inl (NameError (Name n))
      | Some v \<Rightarrow> Inr v)"

definition value_transform :: "pyval \<Rightarrow> matrix \<Rightarrow> error + cart" where
  \<comment> \<open>\<^verbatim>\<open>value.transform(matrix)\<close>: a method of Cartesian representations.\<close>
  "value_transform v m =
     (case v of
        ReprValue (CartesianRepresentation p) \<Rightarrow> Inr (matrix_apply m p, None)
      | _ \<Rightarrow> Inl (AttributeError (Name ''transform'')))"

definition gei_to_hme :: "collaborators \<Rightarrow> frame \<Rightarrow> frame \<Rightarrow> error + frame" where
  "gei_to_hme E geicoord hmeframe =
     (let int_frame = mean_ecliptic_frame (obstime geicoord) in
      seq (sun_earth_in E int_frame) (\<lambda>sun_earth_int.
      seq (load_global ''gsecoord'') (\<lambda>gsecoord.
      seq (value_transform gsecoord (rotation_matrix OBLIQUITY_J2000 AxisX))
        (\<lambda>earth_object_int.
      seq (cart_add sun_earth_int earth_object_int) (\<lambda>sun_object_int.
      let int_coord = realize_frame int_frame (cart_data sun_object_int) in
      seq (transform_to E int_coord (ToClass HCRS))
        (\<lambda>c. transform_to E c (ToFrame hmeframe)))))))"

section \<open>The transform graph and its pruning\<close>

text \<open>
  Modelled from the spec: the transform graph is Astropy's, a mapping from a source
  frame class to a mapping from a destination frame class to the registered
  transformation, with a table from frame names to frame classes. Classes and
  transformations are identified by their Python names. Both mappings are association
  lists in insertion order.
\<close>

type_synonym frame_class = string

record transform_graph =
  edges :: "(frame_class \<times> (frame_class \<times> string) list) list"
  cached_names :: "(string \<times> frame_class) list"

definition get_names :: "transform_graph \<Rightarrow> string list" where
  "get_names g = map fst (cached_names g)"

definition lookup_name :: "transform_graph \<Rightarrow> string \<Rightarrow> frame_class option" where
  "lookup_name g n = map_of (cached_names g) n"

definition get_transform :: "transform_graph \<Rightarrow> frame_class \<Rightarrow> frame_class \<Rightarrow> string option" where
  \<comment> \<open>The direct edge between two classes, when there is one.\<close>
  "get_transform g a b = (case map_of (edges g) a of None \<Rightarrow> None | Some ds \<Rightarrow> map_of ds b)"

definition add_transform ::
  "frame_class \<Rightarrow> frame_class \<Rightarrow> string \<Rightarrow> transform_graph \<Rightarrow> transform_graph" where
  "add_transform a b t g =
     g\<lparr>edges :=
         (case map_of (edges g) a of
            None \<Rightarrow> edges g @ [(a, [(b, t)])]
          | Some ds \<Rightarrow>
              map (\<lambda>(c, es). if c = a then (c, filter (\<lambda>(d, x). d \<noteq> b) es @ [(b, t)]) else (c, es))
                (edges g))\<rparr>"

text \<open>
  The state of the interpreter that \<^verbatim>\<open>_make_sunpy_graph\<close> touches: graph objects at
  their addresses, and two names bound to such an object. \<open>astropy_graph\<close> is
  Astropy's own name for its graph, in \<^verbatim>\<open>astropy.coordinates.baseframe\<close>: it is the one
  that \<^verbatim>\<open>transform_to\<close> reads when it looks a transformation up.
  \<open>frame_transform_graph\<close> is the name of this module, which line 23 imports from
  there and which the \<^verbatim>\<open>global\<close> statement of \<^verbatim>\<open>_make_sunpy_graph\<close> rebinds.
\<close>

record pystate =
  heap :: "transform_graph list"
  astropy_graph :: nat
  frame_transform_graph :: nat

definition deepcopy :: "pystate \<Rightarrow> nat \<Rightarrow> nat \<times> pystate" where
  \<comment> \<open>A copy at a fresh address.\<close>
  "deepcopy s r = (length (heap s), s\<lparr>heap := heap s @ [heap s ! r]\<rparr>)"

definition modify :: "nat \<Rightarrow> (transform_graph \<Rightarrow> transform_graph) \<Rightarrow> pystate \<Rightarrow> pystate" where
  \<comment> \<open>A mutation of the object at an address.\<close>
  "modify r f s = s\<lparr>heap := (heap s)[r := f (heap s ! r)]\<rparr>"

definition keep_list :: "string list" where
  "keep_list =
     [''icrs'', ''hcrs'', ''heliocentrictrueecliptic'', ''heliocentricmeanecliptic'',
      ''heliographic_stonyhurst'', ''heliographic_carrington'',
      ''heliocentric'', ''helioprojective'',
      ''heliocentricearthecliptic'', ''geocentricsolarecliptic'',
      ''heliocentricinertial'', ''geocentricearthequatorial'',
      ''gcrs'', ''precessedgeocentric'', ''geocentrictrueecliptic'', ''geocentricmeanecliptic'',
      ''cirs'', ''altaz'', ''itrs'']"

definition cull_frame ::
  "frame_class option \<Rightarrow> (frame_class \<times> (frame_class \<times> string) list) list
     \<Rightarrow> (frame_class \<times> (frame_class \<times> string) list) list" where
  \<comment> \<open>One pass of the loop over \<^verbatim>\<open>cull_frames\<close>: the frame as a source, then as a
      destination of every remaining entry.\<close>
  "cull_frame fr es =
     map (\<lambda>(src, ds). (src, filter (\<lambda>(dst, t). Some dst \<noteq> fr) ds))
       (filter (\<lambda>(src, ds). Some src \<noteq> fr) es)"

definition cull :: "transform_graph \<Rightarrow> transform_graph" where
  "cull small_graph =
     (let cull_list = filter (\<lambda>name. name \<notin> set keep_list) (get_names small_graph);
          cull_frames = map (lookup_name small_graph) cull_list
      in \<lparr>edges = fold cull_frame cull_frames (edges small_graph),
          cached_names =
            fold (\<lambda>name ns. filter (\<lambda>(k, c). k \<noteq> name) ns) cull_list
              (cached_names small_graph)\<rparr>)"

definition add_astropy_node :: "transform_graph \<Rightarrow> transform_graph" where
  "add_astropy_node g =
     (let g1 = add_transform ''Astropy'' ''ICRS'' ''fake_transform1'' g;
          g2 = add_transform ''ICRS'' ''Astropy'' ''fake_transform2'' g1
      in g2\<lparr>cached_names :=
              filter (\<lambda>(k, c). k \<noteq> ''REPLACE'') (cached_names g2) @ [(''REPLACE'', ''Astropy'')]\<rparr>)"

text \<open>
  \<^verbatim>\<open>_make_sunpy_graph\<close>, statement by statement. \<open>make_sunpy_graph_states\<close> lists
  the state on entry and after each group of statements: the two copies, the culling,
  the added node, the rebinding of the module's name to the small graph (the state in
  which the documentation is rendered) and the rebinding to the backup. The rendering
  \<open>docs\<close> and the text edits of \<^verbatim>\<open>_tweak_graph\<close> do not touch the graph and are
  parameters.
\<close>

definition make_sunpy_graph_states :: "pystate \<Rightarrow> pystate list" where
  "make_sunpy_graph_states s0 =
     (let (backup_graph, s1) = deepcopy s0 (frame_transform_graph s0);
          (small_graph, s2) = deepcopy s1 (frame_transform_graph s1);
          s3 = modify small_graph cull s2;
          s4 = modify small_graph add_astropy_node s3;
          s5 = s4\<lparr>frame_transform_graph := small_graph\<rparr>;
          s6 = s5\<lparr>frame_transform_graph := backup_graph\<rparr>
      in [s0, s1, s2, s3, s4, s5, s6])"

definition make_sunpy_graph ::
  "(pystate \<Rightarrow> string) \<Rightarrow> (string \<Rightarrow> string) \<Rightarrow> pystate \<Rightarrow> string \<times> pystate" where
  "make_sunpy_graph docs tweak_graph s0 =
     (let states = make_sunpy_graph_states s0
      in (tweak_graph (docs (states ! 5)), states ! 6))"

definition live_graph :: "pystate \<Rightarrow> transform_graph" where
  \<comment> \<open>The graph that a transform lookup observes.\<close>
  "live_graph s = heap s ! astropy_graph s"

definition module_graph :: "pystate \<Rightarrow> transform_graph" where
  \<comment> \<open>The graph that the module's name \<^verbatim>\<open>frame_transform_graph\<close> is bound to.\<close>
  "module_graph s = heap s ! frame_transform_graph s"

section \<open>Example inputs\<close>

text \<open>
  Collaborators for evaluating the transformations on examples: the Sun at the
  barycentre, the Earth on the X axis at 147.1 million kilometres moving along Y, a
  Carrington longitude of zero, and a \<^verbatim>\<open>transform_to\<close> that keeps the data of the
  coordinate (the axes of the source and the destination coincide).
\<close>

definition example_collaborators :: collaborators where
  "example_collaborators =
     \<lparr>transform_to =
        (\<lambda>f t. seq (frame_data f) (\<lambda>d.
           case t of
             ToFrame g \<Rightarrow> Inr (realize_frame g d)
           | ToClass k \<Rightarrow> Inr (Frame k (Some d) (obstime f) NoObserver None))),
      get_body_barycentric =
        (\<lambda>b t. case b of
           Sun \<Rightarrow> Inr (Fin 0, Fin 0, Fin 0)
         | Earth \<Rightarrow> Inr (Fin 147100000000, Fin 0, Fin 0)),
      get_body_barycentric_posvel =
        (\<lambda>b t. case b of
           Sun \<Rightarrow> Inr ((Fin 0, Fin 0, Fin 0), (Fin 0, Fin 0, Fin 0))
         | Earth \<Rightarrow> Inr ((Fin 147100000000, Fin 0, Fin 0), (Fin 0, Fin 30000, Fin 0))),
      L0 = (\<lambda>t. Inr (Fin 0)),
      calculate_distance = (\<lambda>f. Inr f),
      new_address = 100\<rparr>"

definition AU :: real where
  "AU = 149597870700"

definition example_vector :: coord_data where
  \<comment> \<open>The vector (1 AU, 0, 0), position only.\<close>
  "example_vector = CoordData (CartesianRepresentation (Fin AU, Fin 0, Fin 0)) None"

definition example_epoch :: time where
  "example_epoch = Scalar 2456383.5"

definition example_epochs :: time where
  \<comment> \<open>An array of two observation times.\<close>
  "example_epochs = Array [2456383.5, 2456384.5]"

definition example_observer :: frame where
  \<comment> \<open>An observer on the X axis of Heliographic Stonyhurst, one astronomical unit out.\<close>
  "example_observer =
     Frame HeliographicStonyhurst
       (Some (CoordData (SphericalRepresentation (Fin 0) (Fin 0) (Fin AU)) None))
       (Some example_epoch) NoObserver None"

definition nearby_observer :: frame where
  \<comment> \<open>The same place within the tolerance of the comparison: one kilometre further out.\<close>
  "nearby_observer =
     Frame HeliographicStonyhurst
       (Some (CoordData (SphericalRepresentation (Fin 0) (Fin 0) (Fin (AU + 1000))) None))
       (Some example_epoch) NoObserver None"

definition array_observer :: frame where
  \<comment> \<open>The example observer with the array of two observation times.\<close>
  "array_observer =
     Frame HeliographicStonyhurst
       (Some (CoordData (SphericalRepresentation (Fin 0) (Fin 0) (Fin AU)) None))
       (Some example_epochs) NoObserver None"

definition bare_observer :: frame where
  \<comment> \<open>A Heliographic Stonyhurst frame without data: an observer without position.\<close>
  "bare_observer = Frame HeliographicStonyhurst None (Some example_epoch) NoObserver None"

definition stamped :: "frame_kind \<Rightarrow> time option \<Rightarrow> frame" where
  \<comment> \<open>The example vector in a frame of the kind, at the obstime, without observer.\<close>
  "stamped k t = Frame k (Some example_vector) t NoObserver None"

definition observed :: "frame_kind \<Rightarrow> observer \<Rightarrow> frame" where
  \<comment> \<open>The example vector at the example epoch, seen by the observer.\<close>
  "observed k obs = Frame k (Some example_vector) (Some example_epoch) obs None"

definition template :: "frame_kind \<Rightarrow> observer \<Rightarrow> frame" where
  \<comment> \<open>A destination frame without data.\<close>
  "template k obs = Frame k None (Some example_epoch) obs None"

definition observed_at :: "frame_kind \<Rightarrow> time \<Rightarrow> observer \<Rightarrow> frame" where
  \<comment> \<open>The example vector at the obstime, seen by the observer.\<close>
  "observed_at k t obs = Frame k (Some example_vector) (Some t) obs None"

definition template_at :: "frame_kind \<Rightarrow> time \<Rightarrow> observer \<Rightarrow> frame" where
  \<comment> \<open>A destination frame without data at the obstime.\<close>
  "template_at k t obs = Frame k None (Some t) obs None"

definition example_total_matrix :: matrix where
  \<comment> \<open>The rotation from HCRS to Heliographic Stonyhurst for the example ephemeris.\<close>
  "example_total_matrix =
     matrix_product
       (rotation_matrix_reprs_to_xz_about_z
          (CartesianRepresentation
             (matrix_apply SUN_DETILT_MATRIX (Fin 147100000000, Fin 0, Fin 0))))
       SUN_DETILT_MATRIX"

definition moving :: "frame_kind \<Rightarrow> time option \<Rightarrow> frame" where
  \<comment> \<open>A coordinate that carries a velocity.\<close>
  "moving k t =
     Frame k (Some (CoordData (CartesianRepresentation (Fin AU, Fin 0, Fin 0))
                 (Some (Fin 0, Fin 1000, Fin 0)))) t NoObserver None"

definition example_graph :: transform_graph where
  \<comment> \<open>A graph with one frame that the culling keeps and one that it removes.\<close>
  "example_graph =
     \<lparr>edges = [(''ICRS'', [(''FK5'', ''icrs_to_fk5'')]), (''FK5'', [(''ICRS'', ''fk5_to_icrs'')])],
      cached_names = [(''icrs'', ''ICRS''), (''fk5'', ''FK5'')]\<rparr>"

definition example_state :: pystate where
  \<comment> \<open>The state after the import: both names are bound to Astropy's graph.\<close>
  "example_state = \<lparr>heap = [example_graph], astropy_graph = 0, frame_transform_graph = 0\<rparr>"

section \<open>Sequencing\<close>

lemma seq_Inr [simp]: "seq (Inr x) f = f x"
  by (simp add: seq_def)

lemma seq_Inl [simp]: "seq (Inl e) f = Inl e"
  by (simp add: seq_def)

section \<open>Properties of the rotation-matrix kernel\<close>

lemma fsub_self_Fin: "fsub (Fin a) (Fin a) = Fin 0"
  by (simp add: fsub_def)

lemma cross_parallel_Fin:
  "cross (Fin a, Fin b, Fin c) (Fin (k * a), Fin (k * b), Fin (k * c)) = (Fin 0, Fin 0, Fin 0)"
  by (simp add: fsub_def)

lemma rotation_matrix_zero_axis:
  "rotation_matrix angle (AxisVector (Fin 0, Fin 0, Fin 0)) = nan_matrix"
  by (simp add: nan_matrix_def fsub_def Let_def)

text \<open>
  C3. \<^verbatim>\<open>_rotation_matrix_reprs_to_reprs(V, V)\<close> and \<^verbatim>\<open>(V, -V)\<close>: the cross product
  of parallel vectors is the zero vector, whose normalisation divides zero by zero, so
  every entry of the returned matrix is NaN. The call does not raise, and the result is
  neither the identity nor a rotation. Evaluated at \<open>V = (1, 0, 0)\<close>.
\<close>

theorem rotation_matrix_reprs_to_reprs_parallel_nan:
  "rotation_matrix_reprs_to_reprs (CartesianRepresentation (Fin 1, Fin 0, Fin 0))
       (CartesianRepresentation (Fin 1, Fin 0, Fin 0)) = nan_matrix
   \<and> rotation_matrix_reprs_to_reprs (CartesianRepresentation (Fin 1, Fin 0, Fin 0))
       (CartesianRepresentation (Fin (- 1), Fin 0, Fin 0)) = nan_matrix
   \<and> nan_matrix \<noteq> identity_matrix"
  by (simp add: rotation_matrix_reprs_to_reprs_def Let_def fsub_def norm_vec_def
      nan_matrix_def identity_matrix_def)

lemma rotation_matrix_reprs_to_reprs_same_vector:
  "rotation_matrix_reprs_to_reprs (CartesianRepresentation (Fin a, Fin b, Fin c))
       (CartesianRepresentation (Fin a, Fin b, Fin c)) = nan_matrix"
proof -
  have "cross (Fin a, Fin b, Fin c) (Fin a, Fin b, Fin c) = (Fin 0, Fin 0, Fin 0)"
    using cross_parallel_Fin [of a b c 1] by simp
  then show ?thesis
    unfolding rotation_matrix_reprs_to_reprs_def Let_def to_cartesian.simps
    by (simp only: rotation_matrix_zero_axis)
qed

lemma rotation_matrix_reprs_to_reprs_opposite_vector:
  "rotation_matrix_reprs_to_reprs (CartesianRepresentation (Fin a, Fin b, Fin c))
       (CartesianRepresentation (vneg (Fin a, Fin b, Fin c))) = nan_matrix"
proof -
  have "cross (Fin a, Fin b, Fin c) (vneg (Fin a, Fin b, Fin c)) = (Fin 0, Fin 0, Fin 0)"
    using cross_parallel_Fin [of a b c "- 1"] by simp
  then show ?thesis
    unfolding rotation_matrix_reprs_to_reprs_def Let_def to_cartesian.simps
    by (simp only: rotation_matrix_zero_axis)
qed

section \<open>Properties of the comparison of obstimes\<close>

lemma map2_same_all: "list_all (\<lambda>b. b) (map2 (\<lambda>a b. a = b) xs xs)"
  by (induction xs) simp_all

lemma broadcast_same:
  "\<exists>r. broadcast (\<lambda>a b. a = b) xs xs = Inr r \<and> list_all (\<lambda>b. b) r"
proof (cases xs)
  case Nil
  then show ?thesis by simp
next
  case (Cons x ys)
  show ?thesis
  proof (cases ys)
    case Nil
    with Cons show ?thesis by simp
  next
    case (Cons y zs)
    with \<open>xs = x # ys\<close> show ?thesis
      using map2_same_all [of xs] by simp
  qed
qed

lemma all_equal_same [simp]: "all_equal t t = Inr True"
proof (cases t)
  case None
  then show ?thesis by (simp add: all_equal_def)
next
  case (Some u)
  show ?thesis
  proof (cases u)
    case (Scalar a)
    with Some show ?thesis by (simp add: all_equal_def)
  next
    case (Array xs)
    from broadcast_same [of xs] obtain r
      where "broadcast (\<lambda>a b. a = b) xs xs = Inr r" "list_all (\<lambda>b. b) r" by blast
    with Some Array show ?thesis by (simp add: all_equal_def)
  qed
qed

lemma all_equal_scalars [simp]:
  "all_equal (Some (Scalar a)) (Some (Scalar b)) = Inr (a = b)"
  by (simp add: all_equal_def)

lemma all_equal_None [simp]:
  "all_equal None (Some t) = Inr False" "all_equal (Some t) None = Inr False"
  by (simp_all add: all_equal_def)

section \<open>Properties of the comparison of observers\<close>

lemma observers_are_equal_same_object:
  "py_eq a b \<Longrightarrow> observers_are_equal a b True = Inr (Truth True)"
  by (simp add: observers_are_equal_def)

lemma observers_are_equal_not_frames:
  "\<not> (string_ok \<and> py_eq a b) \<Longrightarrow> \<not> (is_frame a \<and> is_frame b) \<Longrightarrow>
   observers_are_equal a b string_ok = Inl (ValueError NotBothFrames)"
  by (cases a; cases b) (auto simp: observers_are_equal_def)

lemma observers_are_equal_frames:
  assumes "\<not> (string_ok \<and> i = j)"
    and "frame_lat f1 = Inr lat1" "frame_lat f2 = Inr lat2"
    and "frame_lon f1 = Inr lon1" "frame_lon f2 = Inr lon2"
    and "frame_radius f1 = Inr r1" "frame_radius f2 = Inr r2"
  shows "observers_are_equal (ObserverFrame i f1) (ObserverFrame j f2) string_ok =
         (if allclose lat1 lat2 \<and> allclose lon1 lon2 \<and> allclose r1 r2
          then time_eq (obstime f1) (obstime f2) else Inr (Truth False))"
  using assms by (auto simp: observers_are_equal_def)

lemma observers_are_equal_scalar_obstime:
  assumes "\<not> (string_ok \<and> i = j)"
    and "frame_lat f1 = Inr lat1" "frame_lat f2 = Inr lat2"
    and "frame_lon f1 = Inr lon1" "frame_lon f2 = Inr lon2"
    and "frame_radius f1 = Inr r1" "frame_radius f2 = Inr r2"
    and "obstime f1 = Some (Scalar t1)" "obstime f2 = Some (Scalar t2)"
  shows "observers_are_equal (ObserverFrame i f1) (ObserverFrame j f2) string_ok =
         Inr (Truth (allclose lat1 lat2 \<and> allclose lon1 lon2 \<and> allclose r1 r2 \<and> t1 = t2))"
  using observers_are_equal_frames [OF assms(1-7)] assms(8,9) by auto

lemma example_observer_components:
  "frame_lat example_observer = Inr (Fin 0)"
  "frame_lon example_observer = Inr (Fin 0)"
  "frame_radius example_observer = Inr (Fin AU)"
  by (simp_all add: example_observer_def frame_lat_def frame_lon_def frame_radius_def
      has_lon_lat_def has_radius_def frame_spherical_def frame_data_def)

lemma nearby_observer_components:
  "frame_lat nearby_observer = Inr (Fin 0)"
  "frame_lon nearby_observer = Inr (Fin 0)"
  "frame_radius nearby_observer = Inr (Fin (AU + 1000))"
  by (simp_all add: nearby_observer_def frame_lat_def frame_lon_def frame_radius_def
      has_lon_lat_def has_radius_def frame_spherical_def frame_data_def)

lemma array_observer_components:
  "frame_lat array_observer = Inr (Fin 0)"
  "frame_lon array_observer = Inr (Fin 0)"
  "frame_radius array_observer = Inr (Fin AU)"
  by (simp_all add: array_observer_def frame_lat_def frame_lon_def frame_radius_def
      has_lon_lat_def has_radius_def frame_spherical_def frame_data_def)

lemma observers_are_equal_nearby:
  "observers_are_equal (ObserverFrame 10 example_observer) (ObserverFrame 20 nearby_observer)
     string_ok = Inr (Truth True)"
  using observers_are_equal_scalar_obstime [of string_ok 10 20 example_observer "Fin 0"
      nearby_observer "Fin 0" "Fin 0" "Fin 0" "Fin AU" "Fin (AU + 1000)" "2456383.5" "2456383.5"]
  by (simp add: example_observer_components nearby_observer_components)
    (simp add: example_observer_def nearby_observer_def example_epoch_def AU_def)

lemma observers_are_equal_array:
  "observers_are_equal (ObserverFrame 10 array_observer) (ObserverFrame 20 array_observer)
     string_ok = Inr (Elementwise [True, True])"
  using observers_are_equal_frames [of string_ok 10 20 array_observer "Fin 0"
      array_observer "Fin 0" "Fin 0" "Fin 0" "Fin AU" "Fin AU"]
  by (simp add: array_observer_components)
    (simp add: array_observer_def example_epochs_def)

text \<open>
  C5. For two distinct observer frames at the same place whose obstime is an array of
  two times, \<^verbatim>\<open>_observers_are_equal\<close> returns the array of the two comparisons and not
  a truth value: line 78 compares the obstimes without reducing the result, where every
  other comparison of obstimes in the module is wrapped in \<^verbatim>\<open>np.all\<close>. The returned
  value has no truth (a condition on it raises), although all its elements are true and
  \<^verbatim>\<open>np.all\<close> of the same comparison is true. Lemmas
  \<open>observers_are_equal_same_object\<close>, \<open>observers_are_equal_not_frames\<close> and
  \<open>observers_are_equal_scalar_obstime\<close> are the other cases of the function.
\<close>

theorem observers_are_equal_returns_array:
  "observers_are_equal (ObserverFrame 10 array_observer) (ObserverFrame 20 array_observer) False
     = Inr (Elementwise [True, True])
   \<and> truth (Elementwise [True, True]) = Inl (ValueError AmbiguousTruth)
   \<and> all_equal (obstime array_observer) (obstime array_observer) = Inr True"
  by (simp add: observers_are_equal_array)

section \<open>Properties of the loopback\<close>

lemma transform_obstime_None: "transform_obstime E frame None = Inr frame"
  by (simp add: transform_obstime_def)

lemma transform_obstime_match:
  "all_equal (obstime frame) ot = Inr True \<Longrightarrow> transform_obstime E frame ot = Inr frame"
  by (simp add: transform_obstime_def)

lemma transform_obstime_differ:
  assumes "ot \<noteq> None" and "all_equal (obstime frame) ot = Inr False"
  shows "transform_obstime E frame ot =
     seq (frame_data frame) (\<lambda>d.
       if obstime frame \<noteq> None then transform_to E frame (ToFrame (replicate_obstime frame ot))
       else Inr (replicate_obstime frame ot))"
  using assms by (cases ot) (simp_all add: transform_obstime_def Let_def)

text \<open>
  C6. \<^verbatim>\<open>_transform_obstime(frame, obstime)\<close> returns the frame itself when the new
  obstime is \<^verbatim>\<open>None\<close> or equals the frame's, elementwise. When the frame has no obstime
  it returns the frame replicated with the new obstime and the same data. Otherwise it is
  the transformation of the frame to its own kind at the new obstime; two different
  scalar obstimes are the plain instance. A frame without data cannot be replicated:
  where the obstimes differ the call raises.
\<close>

theorem transform_obstime_spec:
  "(ot = None \<or> obstime frame = ot \<longrightarrow> transform_obstime E frame ot = Inr frame)
   \<and> (all_equal (obstime frame) ot = Inr True \<longrightarrow> transform_obstime E frame ot = Inr frame)
   \<and> (ot \<noteq> None \<and> obstime frame = None \<and> data frame \<noteq> None \<longrightarrow>
        transform_obstime E frame ot = Inr (replicate_obstime frame ot) \<and>
        obstime (replicate_obstime frame ot) = ot \<and>
        data (replicate_obstime frame ot) = data frame)
   \<and> (ot \<noteq> None \<and> obstime frame \<noteq> None \<and> all_equal (obstime frame) ot = Inr False \<and>
        data frame \<noteq> None \<longrightarrow>
        transform_obstime E frame ot = transform_to E frame (ToFrame (replicate_obstime frame ot)) \<and>
        kind (replicate_obstime frame ot) = kind frame \<and>
        obstime (replicate_obstime frame ot) = ot)
   \<and> (obstime frame = Some (Scalar t1) \<and> ot = Some (Scalar t2) \<and> t1 \<noteq> t2 \<and>
        data frame \<noteq> None \<longrightarrow>
        transform_obstime E frame ot = transform_to E frame (ToFrame (replicate_obstime frame ot)))
   \<and> (ot \<noteq> None \<and> all_equal (obstime frame) ot = Inr False \<and> data frame = None \<longrightarrow>
        transform_obstime E frame ot = Inl (ValueError NoData))"
proof -
  have same: "transform_obstime E frame ot = Inr frame" if "ot = None \<or> obstime frame = ot"
    using that by (auto simp: transform_obstime_None transform_obstime_match)
  have unset: "transform_obstime E frame ot = Inr (replicate_obstime frame ot)"
    if "ot \<noteq> None" "obstime frame = None" "data frame \<noteq> None"
    using that transform_obstime_differ [of ot frame E] by (auto simp: frame_data_def)
  have loop: "transform_obstime E frame ot
      = transform_to E frame (ToFrame (replicate_obstime frame ot))"
    if "ot \<noteq> None" "obstime frame \<noteq> None" "all_equal (obstime frame) ot = Inr False"
      "data frame \<noteq> None"
    using that transform_obstime_differ [of ot frame E] by (auto simp: frame_data_def)
  have scalar: "transform_obstime E frame ot
      = transform_to E frame (ToFrame (replicate_obstime frame ot))"
    if "obstime frame = Some (Scalar t1)" "ot = Some (Scalar t2)" "t1 \<noteq> t2" "data frame \<noteq> None"
    using that loop by simp
  have bare: "transform_obstime E frame ot = Inl (ValueError NoData)"
    if "ot \<noteq> None" "all_equal (obstime frame) ot = Inr False" "data frame = None"
    using that transform_obstime_differ [of ot frame E] by (simp add: frame_data_def)
  have rep: "obstime (replicate_obstime frame ot) = ot"
    "data (replicate_obstime frame ot) = data frame"
    "kind (replicate_obstime frame ot) = kind frame"
    by (simp_all add: replicate_obstime_def)
  show ?thesis
    apply (intro conjI impI)
    using same unset loop scalar bare rep transform_obstime_match [of frame ot E]
    by auto
qed

theorem transform_obstime_spec_witness:
  "transform_obstime example_collaborators (stamped HeliographicStonyhurst (Some example_epoch)) None
     = Inr (stamped HeliographicStonyhurst (Some example_epoch))
   \<and> transform_obstime example_collaborators (stamped HeliographicStonyhurst (Some example_epochs))
       (Some example_epochs)
     = Inr (stamped HeliographicStonyhurst (Some example_epochs))
   \<and> transform_obstime example_collaborators (stamped HeliographicStonyhurst None) (Some example_epoch)
     = Inr (stamped HeliographicStonyhurst (Some example_epoch))
   \<and> transform_obstime example_collaborators (stamped HeliographicStonyhurst (Some J2000))
       (Some example_epoch)
     = transform_to example_collaborators (stamped HeliographicStonyhurst (Some J2000))
         (ToFrame (stamped HeliographicStonyhurst (Some example_epoch)))
   \<and> transform_obstime example_collaborators (bare_frame HeliographicStonyhurst (Some J2000))
       (Some example_epoch)
     = Inl (ValueError NoData)"
  using transform_obstime_spec [of None "stamped HeliographicStonyhurst (Some example_epoch)"
      example_collaborators]
    transform_obstime_spec [of "Some example_epochs"
      "stamped HeliographicStonyhurst (Some example_epochs)" example_collaborators]
    transform_obstime_spec [of "Some example_epoch" "stamped HeliographicStonyhurst None"
      example_collaborators]
    transform_obstime_spec [of "Some example_epoch" "stamped HeliographicStonyhurst (Some J2000)"
      example_collaborators 2451545 "2456383.5"]
    transform_obstime_spec [of "Some example_epoch" "bare_frame HeliographicStonyhurst (Some J2000)"
      example_collaborators]
  by (simp add: stamped_def bare_frame_def replicate_obstime_def J2000_def example_epoch_def)

section \<open>Properties of the transformations within one kind\<close>

lemma shortcut_data:
  "data from_coo = Some d \<Longrightarrow>
   seq (frame_data from_coo) (\<lambda>d. Inr (realize_frame to_frame d)) = Inr (realize_frame to_frame d)"
  by (simp add: frame_data_def)

lemma same_observer_and_obstime_object:
  "py_eq (observer from_coo) (observer to_frame) \<Longrightarrow>
   same_observer_and_obstime from_coo to_frame = all_equal (obstime from_coo) (obstime to_frame)"
  by (simp add: same_observer_and_obstime_def observers_are_equal_same_object)

lemma same_observer_and_obstime_close:
  "observers_are_equal (observer from_coo) (observer to_frame) True = Inr r \<Longrightarrow>
   truth r = Inr True \<Longrightarrow>
   same_observer_and_obstime from_coo to_frame = all_equal (obstime from_coo) (obstime to_frame)"
  by (simp add: same_observer_and_obstime_def)

lemma same_kind_shortcut:
  assumes "all_equal (obstime from_coo) (obstime to_frame) = Inr True"
    and "data from_coo = Some d"
  shows "hgs_to_hgs E from_coo to_frame = Inr (realize_frame to_frame d)"
    and "hgc_to_hgc E from_coo to_frame = Inr (realize_frame to_frame d)"
    and "hee_to_hee E from_coo to_frame = Inr (realize_frame to_frame d)"
    and "gse_to_gse E from_coo to_frame = Inr (realize_frame to_frame d)"
    and "hci_to_hci E from_coo to_frame = Inr (realize_frame to_frame d)"
    and "gei_to_gei E from_coo to_frame = Inr (realize_frame to_frame d)"
  using assms(1) shortcut_data [OF assms(2)]
  by (simp_all add: hgs_to_hgs_def hgc_to_hgc_def hee_to_hee_def gse_to_gse_def
      hci_to_hci_def gei_to_gei_def)

lemma same_kind_shortcut_observer:
  assumes "all_equal (obstime from_coo) (obstime to_frame) = Inr True"
    and "data from_coo = Some d"
    and "py_eq (observer from_coo) (observer to_frame) \<or>
         (\<exists>r. observers_are_equal (observer from_coo) (observer to_frame) True = Inr r \<and>
              truth r = Inr True)"
  shows "hpc_to_hpc E from_coo to_frame = Inr (realize_frame to_frame d)"
    and "hcc_to_hcc E from_coo to_frame = Inr (realize_frame to_frame d)"
proof -
  have "same_observer_and_obstime from_coo to_frame = Inr True"
    using assms(1,3) same_observer_and_obstime_object same_observer_and_obstime_close
    by metis
  then show "hpc_to_hpc E from_coo to_frame = Inr (realize_frame to_frame d)"
    and "hcc_to_hcc E from_coo to_frame = Inr (realize_frame to_frame d)"
    using shortcut_data [OF assms(2)] by (simp_all add: hpc_to_hpc_def hcc_to_hcc_def)
qed

lemma same_kind_shortcut_nearby:
  "hcc_to_hcc example_collaborators (observed Heliocentric (ObserverFrame 10 example_observer))
       (template Heliocentric (ObserverFrame 20 nearby_observer))
     = Inr (observed Heliocentric (ObserverFrame 20 nearby_observer))"
  using same_kind_shortcut_observer(2) [of "observed Heliocentric (ObserverFrame 10 example_observer)"
      "template Heliocentric (ObserverFrame 20 nearby_observer)" example_vector
      example_collaborators] observers_are_equal_nearby [of True]
  by (simp add: observed_def template_def realize_frame_def)

text \<open>
  C2. The six transformations without observer return the destination frame realized
  with the data of the coordinate whenever the obstimes are equal
  (\<open>same_kind_shortcut\<close>), and so do \<^verbatim>\<open>hpc_to_hpc\<close> and \<^verbatim>\<open>hcc_to_hcc\<close> when the
  observer is the same object or name, or passes the comparison with a truth value
  (\<open>same_kind_shortcut_observer\<close>). Two distinct observer frames at the same place with
  an array of two obstimes do not: the comparison of observers returns an array, the
  \<^verbatim>\<open>and\<close> of the condition asks for its truth, and both functions raise although
  observer and obstime of the destination equal those of the coordinate. With one and
  the same observer object the data is returned.
\<close>

theorem equal_observers_with_array_obstime_raise:
  "hpc_to_hpc example_collaborators
       (observed_at Helioprojective example_epochs (ObserverFrame 10 array_observer))
       (template_at Helioprojective example_epochs (ObserverFrame 20 array_observer))
     = Inl (ValueError AmbiguousTruth)
   \<and> hcc_to_hcc example_collaborators
       (observed_at Heliocentric example_epochs (ObserverFrame 10 array_observer))
       (template_at Heliocentric example_epochs (ObserverFrame 20 array_observer))
     = Inl (ValueError AmbiguousTruth)
   \<and> hpc_to_hpc example_collaborators
       (observed_at Helioprojective example_epochs (ObserverFrame 10 array_observer))
       (template_at Helioprojective example_epochs (ObserverFrame 10 array_observer))
     = Inr (observed_at Helioprojective example_epochs (ObserverFrame 10 array_observer))"
proof -
  have "same_observer_and_obstime
      (observed_at k example_epochs (ObserverFrame 10 array_observer))
      (template_at k example_epochs (ObserverFrame 20 array_observer))
      = Inl (ValueError AmbiguousTruth)" for k
    by (simp add: same_observer_and_obstime_def observed_at_def template_at_def
        observers_are_equal_array)
  moreover have "hpc_to_hpc example_collaborators
       (observed_at Helioprojective example_epochs (ObserverFrame 10 array_observer))
       (template_at Helioprojective example_epochs (ObserverFrame 10 array_observer))
     = Inr (observed_at Helioprojective example_epochs (ObserverFrame 10 array_observer))"
    using same_kind_shortcut_observer(1)
      [of "observed_at Helioprojective example_epochs (ObserverFrame 10 array_observer)"
        "template_at Helioprojective example_epochs (ObserverFrame 10 array_observer)"
        example_vector example_collaborators]
    by (simp add: observed_at_def template_at_def realize_frame_def)
  ultimately show ?thesis
    by (simp add: hpc_to_hpc_def hcc_to_hcc_def)
qed

section \<open>Missing attributes\<close>

lemma hpc_to_hcc_unresolved:
  "\<not> is_frame (observer heliopcoord) \<Longrightarrow>
   hpc_to_hcc E heliopcoord heliocframe = Inl (ConvertError ObserverNotFrame)"
  by (simp add: hpc_to_hcc_def)

lemma frame_radius_bare:
  "has_radius (kind f) \<Longrightarrow> data f = None \<Longrightarrow> frame_radius f = Inl (ValueError NoData)"
  by (simp add: frame_radius_def frame_spherical_def frame_data_def)

lemma transform_obstime_observer_bare:
  assumes "has_radius (kind f)" and "data f = None"
    and "all_equal (obstime f) ot = Inr same"
  shows "seq (transform_obstime_observer E (ObserverFrame i f) ot) observer_radius
     = Inl (ValueError NoData)"
proof (cases "ot = None")
  case True
  with assms(1,2) show ?thesis
    by (simp add: transform_obstime_observer_def observer_radius_def frame_radius_bare)
next
  case False
  then obtain t where t: "ot = Some t" by blast
  show ?thesis
  proof (cases same)
    case True
    with t assms show ?thesis
      by (simp add: transform_obstime_observer_def observer_radius_def frame_radius_bare)
  next
    case no: False
    with t assms(3) have "transform_obstime E f (Some t) = Inl (ValueError NoData)"
      using transform_obstime_differ [of "Some t" f E] assms(2) by (simp add: frame_data_def)
    with t no assms(3) show ?thesis
      by (simp add: transform_obstime_observer_def)
  qed
qed

lemma hpc_to_hcc_observer_without_data:
  assumes "observer heliopcoord = ObserverFrame i f"
    and "has_radius (kind f)" and "data f = None"
    and "calculate_distance E heliopcoord = Inr c"
    and "observer c = observer heliopcoord" and "data c \<noteq> None"
    and "all_equal (obstime f) (obstime c) = Inr same"
  shows "hpc_to_hcc E heliopcoord heliocframe = Inl (ValueError NoData)"
proof -
  from assms(6) obtain d where d: "data c = Some d" by blast
  have "seq (transform_obstime_observer E (observer c) (obstime c)) observer_radius
      = Inl (ValueError NoData)"
    using transform_obstime_observer_bare [OF assms(2,3,7), of E i] assms(1,5) by simp
  then have "seq (transform_obstime_observer E (observer c) (obstime c)) (\<lambda>obs.
      seq (observer_radius obs) (k obs)) = Inl (ValueError NoData)"
    for k :: "observer \<Rightarrow> fl \<Rightarrow> error + frame"
    by (cases "transform_obstime_observer E (observer c) (obstime c)") simp_all
  then show ?thesis
    using assms(1,4) d
    by (simp add: hpc_to_hcc_def frame_cartesian_def frame_data_def Let_def)
qed

lemma hcrs_to_hgs_no_obstime:
  "obstime hgsframe = None \<Longrightarrow> hcrs_to_hgs E hcrscoord hgsframe = Inl (ValueError NeedsObstime)"
  by (simp add: hcrs_to_hgs_def)

lemma hgs_to_hcrs_no_obstime:
  "obstime hgscoord = None \<Longrightarrow> hgs_to_hcrs E hgscoord hcrsframe = Inl (ValueError NeedsObstime)"
  by (simp add: hgs_to_hcrs_def hcrs_to_hgs_no_obstime)

lemma carrington_no_obstime:
  assumes "obstime coord = None" and "obstime new_frame = None"
  shows "hgs_to_hgc E coord new_frame = Inl (ValueError NeedsObstime)"
    and "hgc_to_hgs E coord new_frame = Inl (ValueError NeedsObstime)"
  using assms
  by (simp_all add: hgs_to_hgc_def hgc_to_hgs_def transform_obstime_def
      rotation_matrix_hgs_to_hgc_def)

lemma carrington_source_without_obstime:
  assumes "obstime coord = None" and "obstime new_frame = Some t"
    and "data coord = Some d" and "L0 E t = Inr l"
  shows "hgs_to_hgc E coord new_frame =
     Inr (realize_frame new_frame (cart_data (cart_transform (rotation_matrix (fneg l) AxisZ)
       (to_cartesian (rep d), differentials d))))"
    and "hgc_to_hgs E coord new_frame =
     Inr (realize_frame new_frame (cart_data (cart_transform
       (matrix_transpose (rotation_matrix (fneg l) AxisZ))
       (to_cartesian (rep d), differentials d))))"
  using assms
  by (simp_all add: hgs_to_hgc_def hgc_to_hgs_def transform_obstime_def
      rotation_matrix_hgs_to_hgc_def frame_data_def frame_cartesian_def replicate_obstime_def
      Let_def)

lemma carrington_destination_without_obstime:
  assumes "obstime coord = Some t" and "obstime new_frame = None"
    and "data coord = Some d" and "L0 E t = Inr l"
  shows "hgs_to_hgc E coord new_frame =
     Inr (realize_frame new_frame (cart_data (cart_transform (rotation_matrix (fneg l) AxisZ)
       (to_cartesian (rep d), differentials d))))"
    and "hgc_to_hgs E coord new_frame =
     Inr (realize_frame new_frame (cart_data (cart_transform
       (matrix_transpose (rotation_matrix (fneg l) AxisZ))
       (to_cartesian (rep d), differentials d))))"
  using assms
  by (simp_all add: hgs_to_hgc_def hgc_to_hgs_def transform_obstime_def
      rotation_matrix_hgs_to_hgc_def frame_data_def frame_cartesian_def Let_def)

text \<open>
  C4, as the code has it. Helioprojective to Heliocentric with an observer that has no
  distance raises: \<^verbatim>\<open>ConvertError\<close> before anything is computed when the observer is
  not a frame (a name or \<^verbatim>\<open>None\<close>), and the \<^verbatim>\<open>ValueError\<close> of a frame without data
  when it is a heliographic frame without data (once \<^verbatim>\<open>calculate_distance\<close> has
  returned a coordinate with data and that observer). HCRS to Heliographic Stonyhurst and
  back raise the \<^verbatim>\<open>ValueError\<close> of the missing obstime when the Stonyhurst frame has no
  obstime. The transformations between Stonyhurst and Carrington raise it when neither
  the coordinate nor the destination has an obstime; when exactly one of them has one,
  the coordinate has data and the Carrington longitude is available, they return the
  coordinate rotated at that obstime. An error is the whole result.
\<close>

theorem missing_attribute_errors:
  "(\<not> is_frame (observer heliopcoord) \<longrightarrow>
      hpc_to_hcc E heliopcoord heliocframe = Inl (ConvertError ObserverNotFrame))
   \<and> (observer heliopcoord = ObserverFrame i f \<and> has_radius (kind f) \<and> data f = None \<and>
      calculate_distance E heliopcoord = Inr c \<and> observer c = observer heliopcoord \<and>
      data c \<noteq> None \<and> all_equal (obstime f) (obstime c) = Inr same \<longrightarrow>
      hpc_to_hcc E heliopcoord heliocframe = Inl (ValueError NoData))
   \<and> (obstime hgsframe = None \<longrightarrow>
      hcrs_to_hgs E hcrscoord hgsframe = Inl (ValueError NeedsObstime))
   \<and> (obstime hgscoord = None \<longrightarrow>
      hgs_to_hcrs E hgscoord hcrsframe = Inl (ValueError NeedsObstime))
   \<and> (obstime coord = None \<and> obstime new_frame = None \<longrightarrow>
      hgs_to_hgc E coord new_frame = Inl (ValueError NeedsObstime) \<and>
      hgc_to_hgs E coord new_frame = Inl (ValueError NeedsObstime))
   \<and> ((obstime coord = None \<and> obstime new_frame = Some t \<or>
       obstime coord = Some t \<and> obstime new_frame = None) \<and>
      data coord = Some d \<and> L0 E t = Inr l \<longrightarrow>
      hgs_to_hgc E coord new_frame =
        Inr (realize_frame new_frame (cart_data (cart_transform (rotation_matrix (fneg l) AxisZ)
          (to_cartesian (rep d), differentials d)))) \<and>
      hgc_to_hgs E coord new_frame =
        Inr (realize_frame new_frame (cart_data (cart_transform
          (matrix_transpose (rotation_matrix (fneg l) AxisZ))
          (to_cartesian (rep d), differentials d)))))"
  apply (intro conjI impI)
  using hpc_to_hcc_unresolved [of heliopcoord E heliocframe]
    hpc_to_hcc_observer_without_data [of heliopcoord i f E c same heliocframe]
    hcrs_to_hgs_no_obstime [of hgsframe E hcrscoord]
    hgs_to_hcrs_no_obstime [of hgscoord E hcrsframe]
    carrington_no_obstime [of coord new_frame E]
    carrington_source_without_obstime [of coord new_frame t d E l]
    carrington_destination_without_obstime [of coord t new_frame d E l]
  by auto

lemma example_L0: "L0 example_collaborators t = Inr (Fin 0)"
  by (simp add: example_collaborators_def)

lemma example_calculate_distance: "calculate_distance example_collaborators f = Inr f"
  by (simp add: example_collaborators_def)

lemma hpc_to_hcc_bare_observer:
  "hpc_to_hcc example_collaborators (observed Helioprojective (ObserverFrame 10 bare_observer))
       (template Heliocentric (ObserverFrame 10 bare_observer))
     = Inl (ValueError NoData)"
  using hpc_to_hcc_observer_without_data
    [of "observed Helioprojective (ObserverFrame 10 bare_observer)" 10 bare_observer
      example_collaborators "observed Helioprojective (ObserverFrame 10 bare_observer)" True
      "template Heliocentric (ObserverFrame 10 bare_observer)"]
  by (simp add: observed_def bare_observer_def has_radius_def example_calculate_distance
      example_vector_def)

theorem missing_attribute_errors_witness:
  "hpc_to_hcc example_collaborators (observed Helioprojective (ObserverName ''earth''))
       (template Heliocentric NoObserver)
     = Inl (ConvertError ObserverNotFrame)
   \<and> hpc_to_hcc example_collaborators (observed Helioprojective (ObserverFrame 10 bare_observer))
       (template Heliocentric NoObserver)
     = Inl (ValueError NoData)
   \<and> hcrs_to_hgs example_collaborators (stamped HCRS (Some J2000))
       (stamped HeliographicStonyhurst None) = Inl (ValueError NeedsObstime)
   \<and> hgs_to_hcrs example_collaborators (stamped HeliographicStonyhurst None)
       (stamped HCRS (Some J2000)) = Inl (ValueError NeedsObstime)
   \<and> hgs_to_hgc example_collaborators (stamped HeliographicStonyhurst None)
       (bare_frame HeliographicCarrington None) = Inl (ValueError NeedsObstime)
   \<and> hgc_to_hgs example_collaborators (stamped HeliographicStonyhurst None)
       (bare_frame HeliographicCarrington None) = Inl (ValueError NeedsObstime)
   \<and> hgs_to_hgc example_collaborators (stamped HeliographicStonyhurst (Some example_epoch))
       (bare_frame HeliographicCarrington None)
     = Inr (stamped HeliographicCarrington None)
   \<and> hgc_to_hgs example_collaborators (stamped HeliographicCarrington (Some example_epoch))
       (bare_frame HeliographicStonyhurst None)
     = Inr (stamped HeliographicStonyhurst None)"
  using missing_attribute_errors
    [where heliopcoord = "observed Helioprojective (ObserverName ''earth'')"
      and E = example_collaborators and heliocframe = "template Heliocentric NoObserver"
      and hgsframe = "stamped HeliographicStonyhurst None"
      and hcrscoord = "stamped HCRS (Some J2000)"
      and hgscoord = "stamped HeliographicStonyhurst None"
      and hcrsframe = "stamped HCRS (Some J2000)"
      and coord = "stamped HeliographicStonyhurst None"
      and new_frame = "bare_frame HeliographicCarrington None"]
    missing_attribute_errors
    [where heliopcoord = "observed Helioprojective (ObserverFrame 10 bare_observer)"
      and E = example_collaborators and heliocframe = "template Heliocentric NoObserver"
      and i = 10 and f = bare_observer
      and c = "observed Helioprojective (ObserverFrame 10 bare_observer)" and same = True
      and coord = "stamped HeliographicStonyhurst (Some example_epoch)"
      and new_frame = "bare_frame HeliographicCarrington None"
      and t = example_epoch and d = example_vector and l = "Fin 0"]
    missing_attribute_errors
    [where E = example_collaborators
      and coord = "stamped HeliographicCarrington (Some example_epoch)"
      and new_frame = "bare_frame HeliographicStonyhurst None"
      and t = example_epoch and d = example_vector and l = "Fin 0"]
  by (simp add: observed_def stamped_def bare_frame_def bare_observer_def has_radius_def
      example_L0 example_calculate_distance realize_frame_def example_vector_def
      cart_data_def cart_transform_def Let_def)

text \<open>
  Stonyhurst to Carrington for a coordinate without obstime and a destination with one
  does not raise. Helioprojective to Heliocentric for an observer frame without data
  raises the same class of error as a missing obstime does, not the conversion error of
  an unresolved observer.
\<close>

theorem missing_obstime_or_observer_data:
  "hgs_to_hgc example_collaborators (stamped HeliographicStonyhurst None)
       (bare_frame HeliographicCarrington (Some example_epoch))
     = Inr (stamped HeliographicCarrington (Some example_epoch))
   \<and> hpc_to_hcc example_collaborators (observed Helioprojective (ObserverFrame 10 bare_observer))
       (template Heliocentric (ObserverFrame 10 bare_observer))
     = Inl (ValueError NoData)"
  using carrington_source_without_obstime(1) [of "stamped HeliographicStonyhurst None"
      "bare_frame HeliographicCarrington (Some example_epoch)" example_epoch example_vector
      example_collaborators "Fin 0"]
  by (simp add: hpc_to_hcc_bare_observer example_L0 stamped_def bare_frame_def
      realize_frame_def example_vector_def cart_data_def cart_transform_def Let_def)

section \<open>The reverse of the affine transformation\<close>

lemma fmul_fneg_right: "fmul x (fneg y) = fneg (fmul x y)"
  by (cases x; cases y) auto

lemma fadd_fneg: "fadd (fneg x) (fneg y) = fneg (fadd x y)"
  by (cases x; cases y) auto

lemma dot_vneg: "dot r (vneg v) = fneg (dot r v)"
  by (cases r; cases v) (simp add: fmul_fneg_right fadd_fneg)

lemma matrix_apply_vneg: "matrix_apply m (vneg v) = vneg (matrix_apply m v)"
  by (cases m) (simp add: dot_vneg)

text \<open>
  C7. \<^verbatim>\<open>hgs_to_hcrs\<close> returns the transpose of the matrix of \<^verbatim>\<open>hcrs_to_hgs\<close> for
  the swapped arguments, with the offset negated and then rotated by the transpose; a
  velocity of the offset is negated and rotated in the same way, and an offset without
  velocity stays without. An error of the forward direction is the error of the reverse.
  Rotating the negated vector is negating the rotated vector.
\<close>

theorem hgs_to_hcrs_reverse:
  "hgs_to_hcrs E hgscoord hcrsframe =
     (case hcrs_to_hgs E hcrsframe hgscoord of
        Inl e \<Rightarrow> Inl e
      | Inr (total_matrix, pos, vel) \<Rightarrow>
          Inr (matrix_transpose total_matrix,
               matrix_apply (matrix_transpose total_matrix) (vneg pos),
               map_option (\<lambda>s. matrix_apply (matrix_transpose total_matrix) (vneg s)) vel))
   \<and> matrix_apply (matrix_transpose m) (vneg v) = vneg (matrix_apply (matrix_transpose m) v)"
proof
  show "hgs_to_hcrs E hgscoord hcrsframe =
     (case hcrs_to_hgs E hcrsframe hgscoord of
        Inl e \<Rightarrow> Inl e
      | Inr (total_matrix, pos, vel) \<Rightarrow>
          Inr (matrix_transpose total_matrix,
               matrix_apply (matrix_transpose total_matrix) (vneg pos),
               map_option (\<lambda>s. matrix_apply (matrix_transpose total_matrix) (vneg s)) vel))"
  proof (cases "hcrs_to_hgs E hcrsframe hgscoord")
    case (Inl e)
    then show ?thesis by (simp add: hgs_to_hcrs_def)
  next
    case (Inr res)
    obtain total_matrix pos vel where res: "res = (total_matrix, pos, vel)"
      by (cases res) auto
    show ?thesis
      by (cases vel) (simp_all add: hgs_to_hcrs_def Inr res cart_transform_def Let_def)
  qed
  show "matrix_apply (matrix_transpose m) (vneg v) = vneg (matrix_apply (matrix_transpose m) v)"
    by (rule matrix_apply_vneg)
qed

lemma hcrs_to_hgs_example:
  "hcrs_to_hgs example_collaborators (template HCRS NoObserver)
       (moving HeliographicStonyhurst (Some example_epoch))
     = Inr (example_total_matrix,
            matrix_apply example_total_matrix (Fin 0, Fin 0, Fin 0),
            Some (matrix_apply example_total_matrix (Fin 0, Fin (- 30000), Fin 0)))"
  by (simp add: hcrs_to_hgs_def template_def moving_def has_differentials_def
      example_collaborators_def Let_def fsub_def cart_transform_def example_total_matrix_def
      any_differ_def example_epoch_def)

theorem hgs_to_hcrs_reverse_witness:
  "hgs_to_hcrs example_collaborators (moving HeliographicStonyhurst (Some example_epoch))
       (template HCRS NoObserver)
     = Inr (matrix_transpose example_total_matrix,
            matrix_apply (matrix_transpose example_total_matrix)
              (vneg (matrix_apply example_total_matrix (Fin 0, Fin 0, Fin 0))),
            Some (matrix_apply (matrix_transpose example_total_matrix)
              (vneg (matrix_apply example_total_matrix (Fin 0, Fin (- 30000), Fin 0)))))"
  using hgs_to_hcrs_reverse [of example_collaborators
      "moving HeliographicStonyhurst (Some example_epoch)" "template HCRS NoObserver"]
  by (simp add: hcrs_to_hgs_example)

section \<open>The sign convention of Geocentric Solar Ecliptic\<close>

lemma hee_to_gse_same_obstime:
  assumes "obstime heecoord = obstime gseframe"
    and "data heecoord = Some (CoordData rp None)"
    and "sun_earth_in E (bare_frame HeliocentricEarthEcliptic (obstime gseframe)) = Inr (se, None)"
  shows "hee_to_gse E heecoord gseframe =
     Inr (realize_frame gseframe
            (CoordData (CartesianRepresentation
               (vscale (vsub (to_cartesian rp) se) (Fin (- 1), Fin (- 1), Fin 1))) None))"
  using assms
  by (simp add: hee_to_gse_def Let_def call_registered_def hee_to_hee_def bare_frame_def
      frame_data_def frame_cartesian_def realize_frame_def cart_sub_def)

text \<open>
  C8, as the code has it. At equal observation times \<^verbatim>\<open>hee_to_gse\<close> subtracts the
  Sun-Earth vector (in Heliocentric Earth Ecliptic) from the coordinate and negates X
  and Y of the difference: the result is the vector from the Earth to the object on the
  reversed X and Y axes, Z unchanged. For \<open>(x, y, z)\<close> and the Sun-Earth vector
  \<open>(a, b, c)\<close> it is \<open>(- (x - a), - (y - b), z - c)\<close>.
\<close>

theorem hee_to_gse_earth_object:
  assumes "obstime heecoord = obstime gseframe"
    and "data heecoord = Some (CoordData (CartesianRepresentation (Fin x, Fin y, Fin z)) None)"
    and "sun_earth_in E (bare_frame HeliocentricEarthEcliptic (obstime gseframe))
           = Inr ((Fin a, Fin b, Fin c), None)"
  shows "hee_to_gse E heecoord gseframe =
     Inr (realize_frame gseframe
            (CoordData (CartesianRepresentation (Fin (- (x - a)), Fin (- (y - b)), Fin (z - c)))
               None))"
  using hee_to_gse_same_obstime [OF assms] by (simp add: fsub_def)

lemma sun_earth_in_example:
  "sun_earth_in example_collaborators (bare_frame k t)
     = Inr ((Fin 147100000000, Fin 0, Fin 0), None)"
  by (simp add: sun_earth_in_def sun_earth_icrf_def example_collaborators_def bare_frame_def
      Let_def fsub_def frame_data_def frame_cartesian_def realize_frame_def)

theorem hee_to_gse_earth_object_witness:
  "hee_to_gse example_collaborators (stamped HeliocentricEarthEcliptic (Some example_epoch))
       (template GeocentricSolarEcliptic NoObserver)
     = Inr (Frame GeocentricSolarEcliptic
          (Some (CoordData (CartesianRepresentation (Fin (- (AU - 147100000000)), Fin 0, Fin 0))
             None))
          (Some example_epoch) NoObserver None)"
  using hee_to_gse_earth_object [of "stamped HeliocentricEarthEcliptic (Some example_epoch)"
      "template GeocentricSolarEcliptic NoObserver" AU 0 0 example_collaborators
      147100000000 0 0]
  by (simp add: stamped_def template_def example_vector_def sun_earth_in_example
      realize_frame_def)

text \<open>
  For (1 AU, 0, 0) and the Earth at 147.1 million kilometres on the X axis the X
  component of the result is the negated distance from the Earth, not the negated X of
  the coordinate.
\<close>

theorem hee_to_gse_not_negated:
  "hee_to_gse example_collaborators (stamped HeliocentricEarthEcliptic (Some example_epoch))
       (template GeocentricSolarEcliptic NoObserver)
     = Inr (Frame GeocentricSolarEcliptic
          (Some (CoordData (CartesianRepresentation (Fin (- 2497870700), Fin 0, Fin 0)) None))
          (Some example_epoch) NoObserver None)
   \<and> Fin (- 2497870700) \<noteq> fneg (Fin AU)"
  using hee_to_gse_same_obstime [of "stamped HeliocentricEarthEcliptic (Some example_epoch)"
      "template GeocentricSolarEcliptic NoObserver"
      "CartesianRepresentation (Fin AU, Fin 0, Fin 0)" example_collaborators
      "(Fin 147100000000, Fin 0, Fin 0)"]
  by (simp add: stamped_def template_def example_vector_def sun_earth_in_example
      realize_frame_def fsub_def AU_def)

section \<open>The representation returned for Helioprojective\<close>

lemma seq_Inr_iff: "seq m f = Inr r \<longleftrightarrow> (\<exists>x. m = Inr x \<and> f x = Inr r)"
  by (cases m) simp_all

lemma hcc_to_hpc_result:
  assumes "hcc_to_hpc E helioccoord heliopframe = Inr r"
  shows "\<exists>newrepr. r = realize_frame heliopframe (represent_as_spherical_data newrepr)"
  using assms unfolding hcc_to_hpc_def Let_def seq_Inr_iff by blast

lemma represent_as_spherical_data_spherical:
  "\<exists>lon lat distance.
     represent_as_spherical_data c = CoordData (SphericalRepresentation lon lat distance) None"
  by (simp add: represent_as_spherical_data_def represent_as_spherical_def split: prod.splits)

text \<open>
  C10. Whenever \<^verbatim>\<open>hcc_to_hpc\<close> returns, the data of the result is a spherical
  representation (longitude, latitude, distance) without velocity, whatever the
  representation of the input.
\<close>

theorem hcc_to_hpc_returns_spherical:
  assumes "hcc_to_hpc E helioccoord heliopframe = Inr r"
  shows "\<exists>lon lat distance.
     data r = Some (CoordData (SphericalRepresentation lon lat distance) None)"
proof -
  from hcc_to_hpc_result [OF assms] obtain newrepr
    where r: "r = realize_frame heliopframe (represent_as_spherical_data newrepr)" ..
  from represent_as_spherical_data_spherical [of newrepr] obtain lon lat distance
    where "represent_as_spherical_data newrepr
      = CoordData (SphericalRepresentation lon lat distance) None"
    by blast
  with r show ?thesis
    by (simp add: realize_frame_def)
qed

lemma hcc_to_hpc_example:
  "hcc_to_hpc example_collaborators (observed Heliocentric (ObserverFrame 10 example_observer))
       (template Helioprojective (ObserverFrame 10 example_observer))
     = Inr (realize_frame (template Helioprojective (ObserverFrame 10 example_observer))
          (represent_as_spherical_data ((Fin AU, Fin AU, Fin 0), None)))"
  by (simp add: hcc_to_hpc_def transform_obstime_observer_def transform_obstime_def
      template_def observed_def example_observer_def Let_def call_registered_def
      example_vector_def hcc_to_hcc_def same_observer_and_obstime_def
      observers_are_equal_def frame_data_def example_epoch_def
      realize_frame_def observer_radius_def frame_radius_def has_radius_def
      frame_spherical_def frame_cartesian_def cart_sub_def fsub_def cart_transform_def
      matrix_hcc_to_hpc_def)

theorem hcc_to_hpc_returns_spherical_witness:
  "hcc_to_hpc example_collaborators (observed Heliocentric (ObserverFrame 10 example_observer))
       (template Helioprojective (ObserverFrame 10 example_observer))
     = Inr (realize_frame (template Helioprojective (ObserverFrame 10 example_observer))
          (represent_as_spherical_data ((Fin AU, Fin AU, Fin 0), None)))
   \<and> (\<exists>lon lat distance.
        data (realize_frame (template Helioprojective (ObserverFrame 10 example_observer))
          (represent_as_spherical_data ((Fin AU, Fin AU, Fin 0), None)))
        = Some (CoordData (SphericalRepresentation lon lat distance) None))"
  using hcc_to_hpc_returns_spherical [OF hcc_to_hpc_example] hcc_to_hpc_example
  by blast

section \<open>Geocentric Earth Equatorial to Heliocentric Mean Ecliptic\<close>

lemma load_global_gsecoord: "load_global ''gsecoord'' = Inl (NameError (Name ''gsecoord''))"
  by (simp add: load_global_def module_globals_def)

lemma isl_seq: "isl m \<Longrightarrow> isl (seq m f)"
  by (cases m) simp_all

text \<open>
  C1. \<^verbatim>\<open>gei_to_hme\<close> reads the name \<^verbatim>\<open>gsecoord\<close>, which neither the function nor
  the module binds (its parameter is \<^verbatim>\<open>geicoord\<close>). Every call raises: the error of
  the Sun-Earth vector when that cannot be computed, \<^verbatim>\<open>NameError\<close> otherwise. So
  \<^verbatim>\<open>hme_to_gei\<close> followed by \<^verbatim>\<open>gei_to_hme\<close> never returns a coordinate.
\<close>

theorem gei_to_hme_raises:
  "gei_to_hme E geicoord hmeframe =
     (case sun_earth_in E (mean_ecliptic_frame (obstime geicoord)) of
        Inl e \<Rightarrow> Inl e
      | Inr sun_earth_int \<Rightarrow> Inl (NameError (Name ''gsecoord'')))
   \<and> isl (gei_to_hme E geicoord hmeframe)
   \<and> isl (seq (hme_to_gei E hmecoord geiframe) (\<lambda>c. gei_to_hme E c hmeframe))"
proof -
  have eq: "gei_to_hme E c f =
     (case sun_earth_in E (mean_ecliptic_frame (obstime c)) of
        Inl e \<Rightarrow> Inl e
      | Inr sun_earth_int \<Rightarrow> Inl (NameError (Name ''gsecoord'')))" for c f
    by (simp add: gei_to_hme_def Let_def load_global_gsecoord split: sum.splits)
  have raises: "isl (gei_to_hme E c f)" for c f
    by (simp add: eq split: sum.splits)
  have "isl (seq (hme_to_gei E hmecoord geiframe) (\<lambda>c. gei_to_hme E c hmeframe))"
    by (cases "hme_to_gei E hmecoord geiframe") (simp_all add: raises)
  with eq raises show ?thesis by blast
qed

lemma gei_to_hme_example:
  "gei_to_hme example_collaborators (stamped GeocentricEarthEquatorial (Some example_epoch))
       (template HeliocentricMeanEcliptic NoObserver)
     = Inl (NameError (Name ''gsecoord''))"
  by (simp add: gei_to_hme_def Let_def load_global_gsecoord mean_ecliptic_frame_def
      sun_earth_in_def sun_earth_icrf_def example_collaborators_def frame_data_def
      frame_cartesian_def realize_frame_def)

section \<open>Properties of the pruning\<close>

lemma make_sunpy_graph_states_eq:
  "make_sunpy_graph_states s0 =
     (let r0 = frame_transform_graph s0; n = length (heap s0); g = heap s0 ! r0 in
      [s0,
       s0\<lparr>heap := heap s0 @ [g]\<rparr>,
       s0\<lparr>heap := heap s0 @ [g, (heap s0 @ [g]) ! r0]\<rparr>,
       s0\<lparr>heap := heap s0 @ [g, cull ((heap s0 @ [g]) ! r0)]\<rparr>,
       s0\<lparr>heap := heap s0 @ [g, add_astropy_node (cull ((heap s0 @ [g]) ! r0))]\<rparr>,
       s0\<lparr>heap := heap s0 @ [g, add_astropy_node (cull ((heap s0 @ [g]) ! r0))],
          frame_transform_graph := Suc n\<rparr>,
       s0\<lparr>heap := heap s0 @ [g, add_astropy_node (cull ((heap s0 @ [g]) ! r0))],
          frame_transform_graph := n\<rparr>])"
  by (simp add: make_sunpy_graph_states_def deepcopy_def modify_def Let_def
      list_update_append nth_append)

lemma old_objects_kept:
  assumes "s \<in> set (make_sunpy_graph_states s0)" and "r < length (heap s0)"
  shows "heap s ! r = heap s0 ! r" and "astropy_graph s = astropy_graph s0"
  using assms by (auto simp: make_sunpy_graph_states_eq Let_def nth_append)

lemma live_graph_kept:
  assumes "s \<in> set (make_sunpy_graph_states s0)" and "astropy_graph s0 < length (heap s0)"
  shows "live_graph s = live_graph s0"
  using old_objects_kept [OF assms(1), of "astropy_graph s0"] assms(2)
  by (simp add: live_graph_def)

lemma final_state_listed:
  "snd (make_sunpy_graph docs tweak_graph s0) \<in> set (make_sunpy_graph_states s0)"
  by (simp add: make_sunpy_graph_def make_sunpy_graph_states_eq Let_def)

lemma module_graph_while_rendering:
  assumes "frame_transform_graph s0 < length (heap s0)"
  shows "module_graph (make_sunpy_graph_states s0 ! 5) = add_astropy_node (cull (module_graph s0))"
  using assms
  by (simp add: make_sunpy_graph_states_eq Let_def module_graph_def nth_append)

text \<open>
  C9. In every state of \<^verbatim>\<open>_make_sunpy_graph\<close>, and after it, the graph that a transform
  lookup observes is the graph on entry, Astropy's name is bound as on entry, and every
  graph object that existed on entry is as it was. The culling acts on a copy at an
  address that did not exist on entry. Only the module's name is bound to that copy,
  while the documentation is rendered; on return the module's name is bound to the
  backup, whose content is the module's graph on entry, and no name is bound to the
  culled copy.
\<close>

theorem make_sunpy_graph_keeps_live_graph:
  assumes "astropy_graph s0 < length (heap s0)"
    and "frame_transform_graph s0 < length (heap s0)"
  shows "(\<forall>s \<in> set (make_sunpy_graph_states s0).
            live_graph s = live_graph s0 \<and> astropy_graph s = astropy_graph s0 \<and>
            (\<forall>r < length (heap s0). heap s ! r = heap s0 ! r))
     \<and> live_graph (snd (make_sunpy_graph docs tweak_graph s0)) = live_graph s0
     \<and> heap (make_sunpy_graph_states s0 ! 3) ! Suc (length (heap s0)) = cull (module_graph s0)
     \<and> module_graph (make_sunpy_graph_states s0 ! 5) = add_astropy_node (cull (module_graph s0))
     \<and> fst (make_sunpy_graph docs tweak_graph s0)
         = tweak_graph (docs (make_sunpy_graph_states s0 ! 5))
     \<and> module_graph (snd (make_sunpy_graph docs tweak_graph s0)) = module_graph s0
     \<and> frame_transform_graph (snd (make_sunpy_graph docs tweak_graph s0)) = length (heap s0)
     \<and> astropy_graph (snd (make_sunpy_graph docs tweak_graph s0)) < length (heap s0)"
proof -
  have every: "\<forall>s \<in> set (make_sunpy_graph_states s0).
      live_graph s = live_graph s0 \<and> astropy_graph s = astropy_graph s0 \<and>
      (\<forall>r < length (heap s0). heap s ! r = heap s0 ! r)"
    using live_graph_kept [OF _ assms(1)] old_objects_kept assms(1) by metis
  have final: "live_graph (snd (make_sunpy_graph docs tweak_graph s0)) = live_graph s0"
    using live_graph_kept [OF final_state_listed assms(1)] .
  have copy: "heap (make_sunpy_graph_states s0 ! 3) ! Suc (length (heap s0))
      = cull (module_graph s0)"
    using assms(2) by (simp add: make_sunpy_graph_states_eq Let_def module_graph_def nth_append)
  have rest: "fst (make_sunpy_graph docs tweak_graph s0)
        = tweak_graph (docs (make_sunpy_graph_states s0 ! 5))"
    "module_graph (snd (make_sunpy_graph docs tweak_graph s0)) = module_graph s0"
    "frame_transform_graph (snd (make_sunpy_graph docs tweak_graph s0)) = length (heap s0)"
    "astropy_graph (snd (make_sunpy_graph docs tweak_graph s0)) < length (heap s0)"
    using assms
    by (simp_all add: make_sunpy_graph_def make_sunpy_graph_states_eq Let_def module_graph_def
        nth_append)
  from every final copy module_graph_while_rendering [OF assms(2)] rest show ?thesis
    by blast
qed

lemma cull_example:
  "cull example_graph = \<lparr>edges = [(''ICRS'', [])], cached_names = [(''icrs'', ''ICRS'')]\<rparr>"
  by (simp add: example_graph_def cull_def get_names_def lookup_name_def keep_list_def
      cull_frame_def)

lemma example_pruned:
  "module_graph (make_sunpy_graph_states example_state ! 5)
     = \<lparr>edges = [(''ICRS'', [(''Astropy'', ''fake_transform2'')]),
                  (''Astropy'', [(''ICRS'', ''fake_transform1'')])],
        cached_names = [(''icrs'', ''ICRS''), (''REPLACE'', ''Astropy'')]\<rparr>"
proof -
  have "module_graph (make_sunpy_graph_states example_state ! 5)
      = add_astropy_node (cull example_graph)"
    using module_graph_while_rendering [of example_state]
    by (simp add: example_state_def module_graph_def)
  then show ?thesis
    by (simp add: cull_example add_astropy_node_def add_transform_def)
qed

theorem make_sunpy_graph_keeps_live_graph_witness:
  "live_graph (make_sunpy_graph_states example_state ! 5) = example_graph
   \<and> get_transform (live_graph (make_sunpy_graph_states example_state ! 5)) ''ICRS'' ''FK5''
       = Some ''icrs_to_fk5''
   \<and> live_graph (snd (make_sunpy_graph (\<lambda>s. []) (\<lambda>t. t) example_state)) = example_graph
   \<and> get_transform (module_graph (make_sunpy_graph_states example_state ! 5)) ''ICRS'' ''FK5''
       = None
   \<and> module_graph (snd (make_sunpy_graph (\<lambda>s. []) (\<lambda>t. t) example_state)) = example_graph"
proof -
  have wf: "astropy_graph example_state < length (heap example_state)"
    "frame_transform_graph example_state < length (heap example_state)"
    by (simp_all add: example_state_def)
  have mem: "make_sunpy_graph_states example_state ! 5
      \<in> set (make_sunpy_graph_states example_state)"
    by (simp add: make_sunpy_graph_states_eq Let_def)
  have g: "live_graph example_state = example_graph" "module_graph example_state = example_graph"
    by (simp_all add: live_graph_def module_graph_def example_state_def)
  have edge: "get_transform example_graph ''ICRS'' ''FK5'' = Some ''icrs_to_fk5''"
    by (simp add: get_transform_def example_graph_def)
  have gone: "get_transform (module_graph (make_sunpy_graph_states example_state ! 5))
      ''ICRS'' ''FK5'' = None"
    by (simp add: example_pruned get_transform_def)
  from make_sunpy_graph_keeps_live_graph [OF wf, of "\<lambda>s. []" "\<lambda>t. t"] mem g edge gone
  show ?thesis by auto
qed

end
